theory Spec2Isabelle
  imports
    Complex_Main
    "HOL-Library.Char_ord"
    "HOL-Library.List_Lexorder"
    "HOL-Library.Word"
begin

section \<open>Resizing the images of sharded TFRecord files (resize_tfrecords_mpi.py)\<close>

text \<open>
  The script reads every record of the TFRecord files assigned to one MPI rank, resizes the
  embedded JPEG by the factor 3.0 and writes a record of the same shape to a file of the same
  base name in the output directory. The functions of TensorFlow, protobuf, glob and the
  byte-string decoder are not part of the script: they are the fields of an environment
  record, and every one of them that can raise returns an error value.
\<close>

subsection \<open>Exceptions\<close>

datatype error =
  IndexError
  | ZeroDivisionError
  | ValueError
  | TypeError
  | UnicodeDecodeError
  | DecodeError
  | InvalidArgumentError
  | DataLossError
  | IOError

text \<open>Sequencing of two steps of which the first may raise.\<close>

definition bindE :: "error + 'a \<Rightarrow> ('a \<Rightarrow> error + 'b) \<Rightarrow> error + 'b" where
  "bindE m f = (case m of Inl e \<Rightarrow> Inl e | Inr x \<Rightarrow> f x)"

subsection \<open>The Example protocol buffer\<close>

text \<open>
  A Feature holds one of three lists, or none. Byte strings are \<open>string\<close>s (a \<open>char\<close> is
  a byte), int64 values are 64-bit words read as signed, and the float values, which the
  script only copies, are of an arbitrary type \<open>'f\<close>.
\<close>

type_synonym bytes = string
type_synonym path = string
type_synonym int64 = "64 word"

datatype 'f feature =
  BytesList "bytes list"
  | FloatList "'f list"
  | Int64List "int64 list"
  | NoKind

type_synonym 'f example = "string \<rightharpoonup> 'f feature"

text \<open>\<open>example.features.feature[key]\<close>: a key that is absent reads as the empty Feature.\<close>

definition feature_of :: "'f example \<Rightarrow> string \<Rightarrow> 'f feature" where
  "feature_of ex key = (case ex key of None \<Rightarrow> NoKind | Some f \<Rightarrow> f)"

text \<open>\<open>.bytes_list.value\<close> and its siblings: the list of another kind reads as empty.\<close>

definition bytes_list_value :: "'f feature \<Rightarrow> bytes list" where
  "bytes_list_value f = (case f of BytesList vs \<Rightarrow> vs | _ \<Rightarrow> [])"

definition float_list_value :: "'f feature \<Rightarrow> 'f list" where
  "float_list_value f = (case f of FloatList vs \<Rightarrow> vs | _ \<Rightarrow> [])"

definition int64_list_value :: "'f feature \<Rightarrow> int64 list" where
  "int64_list_value f = (case f of Int64List vs \<Rightarrow> vs | _ \<Rightarrow> [])"

text \<open>\<open>value[0]\<close> raises IndexError on the empty list.\<close>

definition value0 :: "'a list \<Rightarrow> error + 'a" where
  "value0 vs = (case vs of [] \<Rightarrow> Inl IndexError | v # _ \<Rightarrow> Inr v)"

subsection \<open>The feature wrappers\<close>

text \<open>
  \<open>_bytes_feature\<close> wraps one byte string; the text constants of the script are ASCII, so
  their UTF-8 encoding is the string itself.
\<close>

definition bytes_feature :: "bytes \<Rightarrow> 'f feature" where
  "bytes_feature v = BytesList [v]"

text \<open>
  \<open>_int64_feature\<close> receives Python integers, which are unbounded; the Int64List
  constructor raises ValueError for a value outside the int64 range.
\<close>

definition in_int64 :: "int \<Rightarrow> bool" where
  "in_int64 v = (- (2 ^ 63) \<le> v \<and> v < 2 ^ 63)"

definition int64_feature :: "int list \<Rightarrow> error + 'f feature" where
  "int64_feature vs =
     (if list_all in_int64 vs then Inr (Int64List (map word_of_int vs)) else Inl ValueError)"

definition float_feature :: "'f list \<Rightarrow> 'f feature" where
  "float_feature vs = FloatList vs"

subsection \<open>Paths\<close>

text \<open>\<open>os.path.basename\<close>: what follows the last slash.\<close>

definition basename :: "string \<Rightarrow> string" where
  "basename p = rev (takeWhile (\<lambda>c. c \<noteq> CHR ''/'') (rev p))"

text \<open>\<open>os.path.join\<close> of two components.\<close>

definition join :: "path \<Rightarrow> path \<Rightarrow> path" where
  "join a b =
     (if b \<noteq> [] \<and> hd b = CHR ''/'' then b
      else if a = [] \<or> last a = CHR ''/'' then a @ b
      else a @ ''/'' @ b)"

subsection \<open>Building the output record\<close>

definition convert_to_example ::
  "bytes \<Rightarrow> bytes \<Rightarrow> int \<Rightarrow> bytes \<Rightarrow> bytes \<Rightarrow> 'f list \<Rightarrow> 'f list \<Rightarrow> 'f list \<Rightarrow> 'f list
     \<Rightarrow> int \<Rightarrow> int \<Rightarrow> error + 'f example" where
  "convert_to_example filename image_buffer label synset human xmin ymin xmax ymax height width =
     (let colorspace = ''RGB'';
          channels = 3;
          image_format = ''JPEG''
      in
      bindE (int64_feature [height]) (\<lambda>f_height.
      bindE (int64_feature [width]) (\<lambda>f_width.
      bindE (int64_feature [channels]) (\<lambda>f_channels.
      bindE (int64_feature [label]) (\<lambda>f_label.
      bindE (int64_feature (replicate (length xmin) label)) (\<lambda>f_bbox_label.
      Inr (Map.empty
        (''image/height'' \<mapsto> f_height,
         ''image/width'' \<mapsto> f_width,
         ''image/colorspace'' \<mapsto> bytes_feature colorspace,
         ''image/channels'' \<mapsto> f_channels,
         ''image/class/label'' \<mapsto> f_label,
         ''image/class/synset'' \<mapsto> bytes_feature synset,
         ''image/class/text'' \<mapsto> bytes_feature human,
         ''image/object/bbox/xmin'' \<mapsto> float_feature xmin,
         ''image/object/bbox/xmax'' \<mapsto> float_feature xmax,
         ''image/object/bbox/ymin'' \<mapsto> float_feature ymin,
         ''image/object/bbox/ymax'' \<mapsto> float_feature ymax,
         ''image/object/bbox/label'' \<mapsto> f_bbox_label,
         ''image/format'' \<mapsto> bytes_feature image_format,
         ''image/filename'' \<mapsto> bytes_feature (basename filename),
         ''image/encoded'' \<mapsto> bytes_feature image_buffer))))))))"

subsection \<open>The new dimensions\<close>

text \<open>
  \<open>int(original_height * resize_factor)\<close> is double-precision arithmetic: the integer is
  converted to the nearest double, the product with 3.0 is rounded to the nearest double,
  and \<open>int\<close> truncates. Every double that occurs is integer valued, so a double is
  represented by the integer it denotes; \<open>int\<close> then changes nothing.
\<close>

fun bit_length :: "nat \<Rightarrow> nat" where
  "bit_length n = (if n = 0 then 0 else Suc (bit_length (n div 2)))"

declare bit_length.simps [simp del]

text \<open>The nearest integer with at most 53 significant bits, ties going to the even one.\<close>

definition round_to_double :: "int \<Rightarrow> int" where
  "round_to_double n =
     (let a = nat \<bar>n\<bar>;
          e = bit_length a - 53
      in if e = 0 then n
         else
           let q = a div 2 ^ e;
               r = a mod 2 ^ e;
               q' = (if 2 * r > 2 ^ e \<or> (2 * r = 2 ^ e \<and> odd q) then q + 1 else q)
           in sgn n * int (q' * 2 ^ e))"

definition float_mul :: "int \<Rightarrow> int \<Rightarrow> int" where
  "float_mul x y = round_to_double (x * y)"

definition resize_factor :: int where
  "resize_factor = 3"

definition scaled_size :: "int \<Rightarrow> int" where
  "scaled_size d = float_mul (round_to_double d) resize_factor"

subsection \<open>The environment and the observable state\<close>

text \<open>
  What the script calls and does not define. \<open>tf_record_iterator\<close> gives the records a
  file yields and the error raised after them, if any; \<open>writer_open\<close> gives the error of
  opening a TFRecordWriter, if any; the three image operations stand for the graph that
  \<open>eval\<close> runs, in the order in which the script builds it.
\<close>

record ('raw, 'img, 'f) tf_env =
  glob :: "string \<Rightarrow> path list"
  tf_record_iterator :: "path \<Rightarrow> 'raw list \<times> error option"
  writer_open :: "path \<Rightarrow> error option"
  ParseFromString :: "'raw \<Rightarrow> error + 'f example"
  SerializeToString :: "'f example \<Rightarrow> 'raw"
  decode_jpeg :: "bytes \<Rightarrow> error + 'img"
  resize_images :: "'img \<Rightarrow> int \<Rightarrow> int \<Rightarrow> error + 'img"
  encode_jpeg :: "'img \<Rightarrow> error + bytes"
  bytes_decode :: "bytes \<Rightarrow> error + string"

text \<open>
  The printed lines, with the values they are formatted from, and the files written. The
  input files are read through \<open>tf_record_iterator\<close> and are not part of the state: the
  output directory is taken to hold none of them.
\<close>

datatype event =
  Progress int path path
  | RecordLine path string nat nat
  | SummaryLine path nat rat rat

record 'raw world =
  stdout :: "event list"
  files :: "path \<rightharpoonup> 'raw list"

definition print :: "event \<Rightarrow> 'raw world \<Rightarrow> 'raw world" where
  "print ev w = w\<lparr>stdout := stdout w @ [ev]\<rparr>"

definition writer_create :: "path \<Rightarrow> 'raw world \<Rightarrow> 'raw world" where
  "writer_create out w = w\<lparr>files := (files w)(out \<mapsto> [])\<rparr>"

definition writer_write :: "path \<Rightarrow> 'raw \<Rightarrow> 'raw world \<Rightarrow> 'raw world" where
  "writer_write out r w =
     w\<lparr>files := (files w)(out \<mapsto> (case files w out of None \<Rightarrow> [] | Some rs \<Rightarrow> rs) @ [r])\<rparr>"

subsection \<open>One record\<close>

text \<open>
  The body of the loop from the parse to the call of \<open>_convert_to_example\<close>: the lines it
  prints, and the record to write with the two encoded lengths. An exception before the
  print leaves no line.
\<close>

definition process_record ::
  "('raw, 'img, 'f) tf_env \<Rightarrow> path \<Rightarrow> 'raw \<Rightarrow> event list \<times> (error + 'f example \<times> nat \<times> nat)" where
  "process_record env input_tf_record_filename record_string =
     (case
        bindE (ParseFromString env record_string) (\<lambda>example.
        bindE (value0 (bytes_list_value (feature_of example ''image/filename''))) (\<lambda>filename.
        bindE (value0 (int64_list_value (feature_of example ''image/class/label''))) (\<lambda>label0.
        bindE (value0 (bytes_list_value (feature_of example ''image/class/synset''))) (\<lambda>synset.
        bindE (value0 (bytes_list_value (feature_of example ''image/class/text''))) (\<lambda>human.
        let label = sint label0;
            xmin = float_list_value (feature_of example ''image/object/bbox/xmin'');
            ymin = float_list_value (feature_of example ''image/object/bbox/ymin'');
            xmax = float_list_value (feature_of example ''image/object/bbox/xmax'');
            ymax = float_list_value (feature_of example ''image/object/bbox/ymax'')
        in
        bindE (value0 (int64_list_value (feature_of example ''image/height''))) (\<lambda>height0.
        bindE (value0 (int64_list_value (feature_of example ''image/width''))) (\<lambda>width0.
        bindE (value0 (bytes_list_value (feature_of example ''image/encoded''))) (\<lambda>original_encoded.
        let original_height = sint height0;
            original_width = sint width0;
            original_len = length original_encoded
        in
        bindE (decode_jpeg env original_encoded) (\<lambda>image.
        let new_height = scaled_size original_height;
            new_width = scaled_size original_width
        in
        bindE (resize_images env image new_height new_width) (\<lambda>resized_image.
        bindE (encode_jpeg env resized_image) (\<lambda>resized_encoded.
        let resized_len = length resized_encoded in
        bindE (bytes_decode env filename) (\<lambda>name.
        Inr ([RecordLine input_tf_record_filename name original_len resized_len],
             bindE (convert_to_example filename resized_encoded label synset human
                      xmin ymin xmax ymax new_height new_width) (\<lambda>example'.
             Inr (example', original_len, resized_len)))))))))))))))
      of Inl e \<Rightarrow> ([], Inl e)
       | Inr printed_and_result \<Rightarrow> printed_and_result)"

subsection \<open>One file\<close>

record stats =
  original_len_total :: nat
  resized_len_total :: nat
  image_count :: nat

text \<open>The \<open>for\<close> loop over the records of one file.\<close>

fun records_loop ::
  "('raw, 'img, 'f) tf_env \<Rightarrow> path \<Rightarrow> path \<Rightarrow> 'raw list \<Rightarrow> 'raw world \<Rightarrow> stats
     \<Rightarrow> 'raw world \<times> stats \<times> (error + unit)" where
  "records_loop env inp out [] w st = (w, st, Inr ())"
| "records_loop env inp out (record_string # rest) w st =
     (let st1 = st\<lparr>image_count := image_count st + 1\<rparr>;
          (printed, r) = process_record env inp record_string;
          w1 = w\<lparr>stdout := stdout w @ printed\<rparr>
      in case r of
           Inl e \<Rightarrow> (w1, st1, Inl e)
         | Inr (example', original_len, resized_len) \<Rightarrow>
             records_loop env inp out rest
               (writer_write out (SerializeToString env example') w1)
               (st1\<lparr>original_len_total := original_len_total st1 + original_len,
                    resized_len_total := resized_len_total st1 + resized_len\<rparr>))"

text \<open>True division of two counts; the quotient is only printed.\<close>

definition py_truediv :: "nat \<Rightarrow> nat \<Rightarrow> error + rat" where
  "py_truediv a b = (if b = 0 then Inl ZeroDivisionError else Inr (of_nat a / of_nat b))"

definition process_tf_record_file ::
  "('raw, 'img, 'f) tf_env \<Rightarrow> path \<Rightarrow> path \<Rightarrow> 'raw world \<Rightarrow> 'raw world \<times> (error + unit)" where
  "process_tf_record_file env input_tf_record_filename output_tf_record_filename w =
     (case writer_open env output_tf_record_filename of
        Some e \<Rightarrow> (w, Inl e)
      | None \<Rightarrow>
          let (records, raised) = tf_record_iterator env input_tf_record_filename;
              (w1, st, r) =
                records_loop env input_tf_record_filename output_tf_record_filename records
                  (writer_create output_tf_record_filename w)
                  \<lparr>original_len_total = 0, resized_len_total = 0, image_count = 0\<rparr>
          in (case r of
                Inl e \<Rightarrow> (w1, Inl e)
              | Inr _ \<Rightarrow>
                  (case raised of
                     Some e \<Rightarrow> (w1, Inl e)
                   | None \<Rightarrow>
                       (case py_truediv (original_len_total st) (image_count st) of
                          Inl e \<Rightarrow> (w1, Inl e)
                        | Inr original_len_mean \<Rightarrow>
                            (case py_truediv (resized_len_total st) (image_count st) of
                               Inl e \<Rightarrow> (w1, Inl e)
                             | Inr resized_len_mean \<Rightarrow>
                                 (print (SummaryLine input_tf_record_filename (image_count st)
                                           original_len_mean resized_len_mean) w1,
                                  Inr ()))))))"

text \<open>
  A call of \<open>process_tf_record_file\<close> that passes further keyword arguments, each a name
  with a number. The function is defined with the two file names as its only parameters, so
  the call raises TypeError before the body runs.
\<close>

definition process_tf_record_file_call ::
  "('raw, 'img, 'f) tf_env \<Rightarrow> path \<Rightarrow> path \<Rightarrow> (string \<times> rat) list \<Rightarrow> 'raw world
     \<Rightarrow> 'raw world \<times> (error + unit)" where
  "process_tf_record_file_call env input_tf_record_filename output_tf_record_filename kwargs w =
     (if kwargs \<noteq> [] then (w, Inl TypeError)
      else process_tf_record_file env input_tf_record_filename output_tf_record_filename w)"

subsection \<open>The worker\<close>

text \<open>Indexing a list with a Python integer: a negative index counts from the end.\<close>

definition list_index :: "'a list \<Rightarrow> int \<Rightarrow> error + 'a" where
  "list_index xs i =
     (if 0 \<le> i \<and> i < int (length xs) then Inr (xs ! nat i)
      else if i < 0 \<and> - int (length xs) \<le> i then Inr (xs ! nat (int (length xs) + i))
      else Inl IndexError)"

text \<open>
  The \<open>while\<close> loop of \<open>worker\<close>, with its body as a parameter. Nothing bounds the number
  of its iterations when \<open>size\<close> is not positive, so the result is optional: \<open>None\<close> is
  a loop that never ends.
\<close>

partial_function (option) worker_loop ::
  "(int \<Rightarrow> 's \<Rightarrow> 's \<times> (error + unit)) \<Rightarrow> int \<Rightarrow> int \<Rightarrow> int \<Rightarrow> 's \<Rightarrow> ('s \<times> (error + unit)) option" where
  "worker_loop body size' num_files i s =
     (if i < num_files then
        (case body i s of
           (s', Inl e) \<Rightarrow> Some (s', Inl e)
         | (s', Inr _) \<Rightarrow> worker_loop body size' num_files (i + size') s')
      else Some (s, Inr ()))"

declare worker_loop.simps [code]

definition shard_body ::
  "('raw, 'img, 'f) tf_env \<Rightarrow> int \<Rightarrow> path \<Rightarrow> path list \<Rightarrow> int \<Rightarrow> 'raw world
     \<Rightarrow> 'raw world \<times> (error + unit)" where
  "shard_body env rank output_dir input_tf_record_filenames i w =
     (case list_index input_tf_record_filenames i of
        Inl e \<Rightarrow> (w, Inl e)
      | Inr input_tf_record_filename \<Rightarrow>
          let output_tf_record_filename = join output_dir (basename input_tf_record_filename)
          in process_tf_record_file env input_tf_record_filename output_tf_record_filename
               (print (Progress rank input_tf_record_filename output_tf_record_filename) w))"

definition worker ::
  "('raw, 'img, 'f) tf_env \<Rightarrow> int \<Rightarrow> int \<Rightarrow> string \<Rightarrow> path \<Rightarrow> 'raw world
     \<Rightarrow> ('raw world \<times> (error + unit)) option" where
  "worker env rank size' input_files output_dir w =
     (let input_tf_record_filenames = sort (glob env input_files);
          num_files = int (length input_tf_record_filenames)
      in worker_loop (shard_body env rank output_dir input_tf_record_filenames)
           size' num_files rank w)"

text \<open>The exit status of the interpreter: 1 after an uncaught exception, 0 otherwise.\<close>

definition exit_status :: "error + unit \<Rightarrow> nat" where
  "exit_status r = (case r of Inl e \<Rightarrow> 1 | Inr _ \<Rightarrow> 0)"

text \<open>
  The indices at which the loop of \<open>worker\<close> enters its body when no file fails: the loop
  itself, run with a body that only notes the index.
\<close>

definition note_index :: "int \<Rightarrow> int list \<Rightarrow> int list \<times> (error + unit)" where
  "note_index i seen = (seen @ [i], Inr ())"

definition assigned_indices :: "int \<Rightarrow> int \<Rightarrow> int \<Rightarrow> int list option" where
  "assigned_indices rank size' num_files =
     map_option fst (worker_loop note_index size' num_files rank [])"

subsection \<open>What is observed of a run\<close>

text \<open>The dimensions a record carries, read as Python integers.\<close>

definition dims_of :: "'f example \<Rightarrow> int list \<times> int list" where
  "dims_of ex =
     (map sint (int64_list_value (feature_of ex ''image/height'')),
      map sint (int64_list_value (feature_of ex ''image/width'')))"

text \<open>The dimensions of the record that one pass of the loop body hands to the writer.\<close>

definition written_dims ::
  "('raw, 'img, 'f) tf_env \<Rightarrow> path \<Rightarrow> 'raw \<Rightarrow> error + int list \<times> int list" where
  "written_dims env inp record_string =
     (case snd (process_record env inp record_string) of
        Inl e \<Rightarrow> Inl e
      | Inr (example', original_len, resized_len) \<Rightarrow> Inr (dims_of example'))"

text \<open>The input files announced on the standard output, in order.\<close>

fun shards_started :: "event list \<Rightarrow> path list" where
  "shards_started [] = []"
| "shards_started (Progress rank inp out # evs) = inp # shards_started evs"
| "shards_started (ev # evs) = shards_started evs"

text \<open>A record whose image payload the JPEG decoder rejects.\<close>

definition corrupt_image :: "('raw, 'img, 'f) tf_env \<Rightarrow> 'raw \<Rightarrow> bool" where
  "corrupt_image env record_string =
     (case ParseFromString env record_string of
        Inl e \<Rightarrow> False
      | Inr example \<Rightarrow>
          (case value0 (bytes_list_value (feature_of example ''image/encoded'')) of
             Inl e \<Rightarrow> False
           | Inr original_encoded \<Rightarrow> isl (decode_jpeg env original_encoded)))"

subsection \<open>The transformer of the specification\<close>

text \<open>
  The specification describes an image transformer that takes the scale factor as an input,
  3.0 when none is given, and computes each new dimension as the floor of the product.
\<close>

definition spec_default_scaleFactor :: rat where
  "spec_default_scaleFactor = 3"

definition spec_scaled :: "rat \<Rightarrow> int \<Rightarrow> int" where
  "spec_scaled scaleFactor d = \<lfloor>of_int d * scaleFactor\<rfloor>"

subsection \<open>A small instance\<close>

text \<open>
  Three input files matched by the pattern, and an empty one beside them. Records are their
  own serialisation and an image is its payload, which the decoder rejects when it is empty.
  The resize operation stores the two sizes in an int32 tensor, where a Python integer wraps,
  rejects a size that is not positive, and triples the payload.
\<close>

definition int32_size :: "int \<Rightarrow> int" where
  "int32_size n = sint (word_of_int n :: 32 word)"

definition sample_record :: "int64 \<Rightarrow> int64 \<Rightarrow> bytes \<Rightarrow> rat example" where
  "sample_record h w payload =
     Map.empty
       (''image/filename'' \<mapsto> BytesList [''train/n01/cat.JPEG''],
        ''image/class/label'' \<mapsto> Int64List [7],
        ''image/class/synset'' \<mapsto> BytesList [''n01''],
        ''image/class/text'' \<mapsto> BytesList [''cat''],
        ''image/object/bbox/xmin'' \<mapsto> FloatList [1 / 4, 1 / 8],
        ''image/object/bbox/ymin'' \<mapsto> FloatList [1 / 5, 1 / 8],
        ''image/object/bbox/xmax'' \<mapsto> FloatList [3 / 4, 1 / 2],
        ''image/object/bbox/ymax'' \<mapsto> FloatList [4 / 5, 1 / 2],
        ''image/height'' \<mapsto> Int64List [h],
        ''image/width'' \<mapsto> Int64List [w],
        ''image/colorspace'' \<mapsto> BytesList [''CMYK''],
        ''image/channels'' \<mapsto> Int64List [4],
        ''image/format'' \<mapsto> BytesList [''PNG''],
        ''image/encoded'' \<mapsto> BytesList [payload])"

definition sample_env :: "(rat example, bytes, rat) tf_env" where
  "sample_env =
     \<lparr>glob = (\<lambda>pattern. [''in/b'', ''in/a'', ''in/c'']),
      tf_record_iterator = (\<lambda>p.
        if p = ''in/a'' then ([sample_record 100 100 ''abcd''], None)
        else if p = ''in/b'' then
          ([sample_record 10 20 ''ab'', sample_record 1 1 [], sample_record 2 2 ''a''], None)
        else if p = ''in/c'' then ([sample_record 5 6 ''abc'', sample_record 7 8 ''de''], None)
        else ([], None)),
      writer_open = (\<lambda>p. None),
      ParseFromString = Inr,
      SerializeToString = (\<lambda>ex. ex),
      decode_jpeg = (\<lambda>b. if b = [] then Inl InvalidArgumentError else Inr b),
      resize_images = (\<lambda>img h w.
        if int32_size h \<le> 0 \<or> int32_size w \<le> 0 then Inl InvalidArgumentError
        else Inr (img @ img @ img)),
      encode_jpeg = Inr,
      bytes_decode = Inr\<rparr>"

text \<open>The record written for \<open>sample_record\<close> when the new dimensions are \<open>h\<close> and \<open>w\<close>.\<close>

definition sample_output :: "int64 \<Rightarrow> int64 \<Rightarrow> bytes \<Rightarrow> rat example" where
  "sample_output h w payload =
     Map.empty
       (''image/height'' \<mapsto> Int64List [h],
        ''image/width'' \<mapsto> Int64List [w],
        ''image/colorspace'' \<mapsto> BytesList [''RGB''],
        ''image/channels'' \<mapsto> Int64List [3],
        ''image/class/label'' \<mapsto> Int64List [7],
        ''image/class/synset'' \<mapsto> BytesList [''n01''],
        ''image/class/text'' \<mapsto> BytesList [''cat''],
        ''image/object/bbox/xmin'' \<mapsto> FloatList [1 / 4, 1 / 8],
        ''image/object/bbox/xmax'' \<mapsto> FloatList [3 / 4, 1 / 2],
        ''image/object/bbox/ymin'' \<mapsto> FloatList [1 / 5, 1 / 8],
        ''image/object/bbox/ymax'' \<mapsto> FloatList [4 / 5, 1 / 2],
        ''image/object/bbox/label'' \<mapsto> Int64List [7, 7],
        ''image/format'' \<mapsto> BytesList [''JPEG''],
        ''image/filename'' \<mapsto> BytesList [''cat.JPEG''],
        ''image/encoded'' \<mapsto> BytesList [payload])"

definition empty_world :: "rat example world" where
  "empty_world = \<lparr>stdout = [], files = Map.empty\<rparr>"

section \<open>Properties\<close>

subsection \<open>Auxiliary facts\<close>

lemma bindE_simps [simp]: "bindE (Inr x) f = f x" "bindE (Inl e) f = Inl e"
  by (simp_all add: bindE_def)

lemma bindE_Inr_iff: "bindE m f = Inr y \<longleftrightarrow> (\<exists>x. m = Inr x \<and> f x = Inr y)"
  by (cases m) (simp_all add: bindE_def)

lemma int64_feature_Inr:
  "int64_feature vs = Inr f \<Longrightarrow> f = Int64List (map word_of_int vs) \<and> list_all in_int64 vs"
  by (simp add: int64_feature_def split: if_splits)

lemma convert_to_example_Inr:
  assumes "convert_to_example filename image_buffer label synset human xmin ymin xmax ymax
             height width = Inr ex'"
  shows "ex' =
     Map.empty
        (''image/height'' \<mapsto> Int64List [word_of_int height],
         ''image/width'' \<mapsto> Int64List [word_of_int width],
         ''image/colorspace'' \<mapsto> BytesList [''RGB''],
         ''image/channels'' \<mapsto> Int64List [3],
         ''image/class/label'' \<mapsto> Int64List [word_of_int label],
         ''image/class/synset'' \<mapsto> BytesList [synset],
         ''image/class/text'' \<mapsto> BytesList [human],
         ''image/object/bbox/xmin'' \<mapsto> FloatList xmin,
         ''image/object/bbox/xmax'' \<mapsto> FloatList xmax,
         ''image/object/bbox/ymin'' \<mapsto> FloatList ymin,
         ''image/object/bbox/ymax'' \<mapsto> FloatList ymax,
         ''image/object/bbox/label'' \<mapsto> Int64List (replicate (length xmin) (word_of_int label)),
         ''image/format'' \<mapsto> BytesList [''JPEG''],
         ''image/filename'' \<mapsto> BytesList [basename filename],
         ''image/encoded'' \<mapsto> BytesList [image_buffer])"
    and "in_int64 height" and "in_int64 width" and "in_int64 label"
  using assms
  unfolding convert_to_example_def Let_def bindE_Inr_iff
  by (auto dest!: int64_feature_Inr simp: bytes_feature_def float_feature_def)

text \<open>What a pass of the loop body that reaches the writer has gone through.\<close>

lemma process_record_Inr:
  assumes "process_record env inp raw = (printed, Inr (ex', ol, rl))"
  shows "\<exists>example filename label0 synset human height0 width0 original_encoded
      image resized_image resized_encoded name.
      ParseFromString env raw = Inr example
    \<and> value0 (bytes_list_value (feature_of example ''image/filename'')) = Inr filename
    \<and> value0 (int64_list_value (feature_of example ''image/class/label'')) = Inr label0
    \<and> value0 (bytes_list_value (feature_of example ''image/class/synset'')) = Inr synset
    \<and> value0 (bytes_list_value (feature_of example ''image/class/text'')) = Inr human
    \<and> value0 (int64_list_value (feature_of example ''image/height'')) = Inr height0
    \<and> value0 (int64_list_value (feature_of example ''image/width'')) = Inr width0
    \<and> value0 (bytes_list_value (feature_of example ''image/encoded'')) = Inr original_encoded
    \<and> decode_jpeg env original_encoded = Inr image
    \<and> resize_images env image (scaled_size (sint height0)) (scaled_size (sint width0))
           = Inr resized_image
    \<and> encode_jpeg env resized_image = Inr resized_encoded
    \<and> bytes_decode env filename = Inr name
    \<and> convert_to_example filename resized_encoded (sint label0) synset human
           (float_list_value (feature_of example ''image/object/bbox/xmin''))
           (float_list_value (feature_of example ''image/object/bbox/ymin''))
           (float_list_value (feature_of example ''image/object/bbox/xmax''))
           (float_list_value (feature_of example ''image/object/bbox/ymax''))
           (scaled_size (sint height0)) (scaled_size (sint width0)) = Inr ex'
    \<and> ol = length original_encoded \<and> rl = length resized_encoded
    \<and> printed = [RecordLine inp name ol rl]"
  using assms
  unfolding process_record_def Let_def
  by (auto simp: bindE_Inr_iff split: sum.splits)

lemma bit_length_le: "n < 2 ^ k \<Longrightarrow> bit_length n \<le> k"
proof (induction k arbitrary: n)
  case 0
  then show ?case by (simp add: bit_length.simps)
next
  case (Suc k)
  show ?case
  proof (cases "n = 0")
    case True
    then show ?thesis by (simp add: bit_length.simps)
  next
    case False
    from Suc.prems have "n div 2 < 2 ^ k" by simp
    then have "bit_length (n div 2) \<le> k" by (rule Suc.IH)
    with False show ?thesis by (subst bit_length.simps) simp
  qed
qed

lemma bit_length_gt: "2 ^ k \<le> n \<Longrightarrow> k < bit_length n"
proof (induction k arbitrary: n)
  case 0
  then show ?case by (subst bit_length.simps) simp
next
  case (Suc k)
  from Suc.prems have "2 ^ k \<le> n div 2" by simp
  then have "k < bit_length (n div 2)" by (rule Suc.IH)
  moreover have "(0 :: nat) < 2 ^ Suc k" by simp
  with Suc.prems have "n \<noteq> 0" by linarith
  ultimately show ?case by (subst bit_length.simps) simp
qed

lemma bit_length_eq: "2 ^ k \<le> n \<Longrightarrow> n < 2 ^ Suc k \<Longrightarrow> bit_length n = Suc k"
  using bit_length_gt [of k n] bit_length_le [of n "Suc k"] by simp

lemma round_to_double_exact:
  assumes "\<bar>n\<bar> < 2 ^ 53"
  shows "round_to_double n = n"
proof -
  from assms have "nat \<bar>n\<bar> < 2 ^ 53" by (simp add: nat_less_iff)
  then have "bit_length (nat \<bar>n\<bar>) \<le> 53" by (rule bit_length_le)
  then show ?thesis by (simp add: round_to_double_def)
qed

lemma scaled_size_exact:
  assumes "0 \<le> d" and "3 * d \<le> 2 ^ 53"
  shows "scaled_size d = 3 * d"
proof -
  have "3 * d \<noteq> 9007199254740992" by presburger
  with assms have small: "\<bar>3 * d\<bar> < 2 ^ 53" by simp
  with assms have "\<bar>d\<bar> < 2 ^ 53" by simp
  then have "round_to_double d = d" by (rule round_to_double_exact)
  moreover have "round_to_double (d * 3) = d * 3"
    using small by (intro round_to_double_exact) (simp add: mult.commute)
  ultimately show ?thesis
    by (simp add: scaled_size_def float_mul_def resize_factor_def mult.commute)
qed

lemma floor_times_three: "\<lfloor>of_int d * (3 :: rat)\<rfloor> = 3 * d"
proof -
  have "of_int d * (3 :: rat) = of_int (3 * d)" by simp
  then show ?thesis by (simp only: floor_of_int)
qed

lemma sint_word_of_int_int64: "in_int64 v \<Longrightarrow> sint (word_of_int v :: int64) = v"
  by (simp add: in_int64_def sint_sbintrunc' signed_take_bit_int_eq_self)

lemma sample_fields:
  "feature_of (sample_record h w p) ''image/filename'' = BytesList [''train/n01/cat.JPEG'']"
  "feature_of (sample_record h w p) ''image/class/label'' = Int64List [7]"
  "feature_of (sample_record h w p) ''image/class/synset'' = BytesList [''n01'']"
  "feature_of (sample_record h w p) ''image/class/text'' = BytesList [''cat'']"
  "feature_of (sample_record h w p) ''image/object/bbox/xmin'' = FloatList [1 / 4, 1 / 8]"
  "feature_of (sample_record h w p) ''image/object/bbox/ymin'' = FloatList [1 / 5, 1 / 8]"
  "feature_of (sample_record h w p) ''image/object/bbox/xmax'' = FloatList [3 / 4, 1 / 2]"
  "feature_of (sample_record h w p) ''image/object/bbox/ymax'' = FloatList [4 / 5, 1 / 2]"
  "feature_of (sample_record h w p) ''image/height'' = Int64List [h]"
  "feature_of (sample_record h w p) ''image/width'' = Int64List [w]"
  "feature_of (sample_record h w p) ''image/encoded'' = BytesList [p]"
  by (simp_all add: sample_record_def feature_of_def)

lemma basename_sample: "basename ''train/n01/cat.JPEG'' = ''cat.JPEG''"
  by (simp add: basename_def)

lemma sample_convert:
  assumes "in_int64 hh" and "in_int64 ww"
  shows "convert_to_example ''train/n01/cat.JPEG'' q 7 ''n01'' ''cat''
           [1 / 4, 1 / 8] [1 / 5, 1 / 8] [3 / 4, 1 / 2] [4 / 5, 1 / 2] hh ww
         = Inr (sample_output (word_of_int hh) (word_of_int ww) q)"
  using assms
  by (simp add: convert_to_example_def int64_feature_def bytes_feature_def float_feature_def
      basename_sample sample_output_def in_int64_def)

lemma sample_process_record:
  assumes "p \<noteq> []" and "in_int64 (scaled_size (sint h))" and "in_int64 (scaled_size (sint w))"
    and "0 < int32_size (scaled_size (sint h))" and "0 < int32_size (scaled_size (sint w))"
  shows "process_record sample_env inp (sample_record h w p) =
     ([RecordLine inp ''train/n01/cat.JPEG'' (length p) (length (p @ p @ p))],
      Inr (sample_output (word_of_int (scaled_size (sint h))) (word_of_int (scaled_size (sint w)))
             (p @ p @ p), length p, length (p @ p @ p)))"
proof -
  have env: "ParseFromString sample_env = Inr" "decode_jpeg sample_env p = Inr p"
    "resize_images sample_env p (scaled_size (sint h)) (scaled_size (sint w)) = Inr (p @ p @ p)"
    "encode_jpeg sample_env = Inr" "bytes_decode sample_env = Inr"
    using assms(1,4,5) by (simp_all add: sample_env_def)
  show ?thesis
    unfolding process_record_def env bindE_simps sample_fields Let_def
      value0_def bytes_list_value_def int64_list_value_def float_list_value_def
      feature.case list.case
    by (simp add: sample_convert [OF assms(2,3)])
qed


lemma scaled_samples:
  "scaled_size 100 = 300" "scaled_size 3002399751580431 = 9007199254741292"
proof -
  show "scaled_size 100 = 300"
    using scaled_size_exact [of 100] by simp
  have "round_to_double 3002399751580431 = 3002399751580431"
    by (rule round_to_double_exact) simp
  moreover have "bit_length 9007199254741293 = Suc 53"
    by (rule bit_length_eq) simp_all
  then have "round_to_double 9007199254741293 = 9007199254741292"
    by (simp add: round_to_double_def)
  ultimately show "scaled_size 3002399751580431 = 9007199254741292"
    by (simp add: scaled_size_def float_mul_def resize_factor_def)
qed

lemma int32_samples:
  "int32_size 300 = 300" "int32_size 9007199254741292 = 300"
  by (simp_all add: int32_size_def)

lemma sample_parse: "ParseFromString sample_env r = Inr r"
  by (simp add: sample_env_def)

lemma sample_run_100:
  "process_record sample_env ''in/a'' (sample_record 100 100 ''abcd'') =
     ([RecordLine ''in/a'' ''train/n01/cat.JPEG'' 4 12],
      Inr (sample_output 300 300 ''abcdabcdabcd'', 4, 12))"
proof -
  have "in_int64 (scaled_size (sint (100 :: int64)))"
    and "0 < int32_size (scaled_size (sint (100 :: int64)))"
    by (simp_all add: scaled_samples int32_samples in_int64_def)
  from sample_process_record [OF _ this(1) this(1) this(2) this(2), of "''abcd''" "''in/a''"]
  show ?thesis by (simp add: scaled_samples)
qed


lemma sample_run_big:
  "process_record sample_env ''in/a'' (sample_record 3002399751580431 100 ''abcd'') =
     ([RecordLine ''in/a'' ''train/n01/cat.JPEG'' 4 12],
      Inr (sample_output 9007199254741292 300 ''abcdabcdabcd'', 4, 12))"
proof -
  have "in_int64 (scaled_size (sint (3002399751580431 :: int64)))"
    and "in_int64 (scaled_size (sint (100 :: int64)))"
    and "0 < int32_size (scaled_size (sint (3002399751580431 :: int64)))"
    and "0 < int32_size (scaled_size (sint (100 :: int64)))"
    by (simp_all add: scaled_samples int32_samples in_int64_def)
  from sample_process_record [OF _ this, of "''abcd''" "''in/a''"]
  show ?thesis by (simp add: scaled_samples)
qed

lemma sample_output_fields:
  "feature_of (sample_output h w p) ''image/height'' = Int64List [h]"
  "feature_of (sample_output h w p) ''image/width'' = Int64List [w]"
  "feature_of (sample_output h w p) ''image/colorspace'' = BytesList [''RGB'']"
  "feature_of (sample_output h w p) ''image/channels'' = Int64List [3]"
  "feature_of (sample_output h w p) ''image/format'' = BytesList [''JPEG'']"
  "feature_of (sample_output h w p) ''image/class/label'' = Int64List [7]"
  "feature_of (sample_output h w p) ''image/object/bbox/label'' = Int64List [7, 7]"
  "feature_of (sample_output h w p) ''image/object/bbox/xmin'' = FloatList [1 / 4, 1 / 8]"
  "feature_of (sample_output h w p) ''image/object/bbox/ymin'' = FloatList [1 / 5, 1 / 8]"
  "feature_of (sample_output h w p) ''image/object/bbox/xmax'' = FloatList [3 / 4, 1 / 2]"
  "feature_of (sample_output h w p) ''image/object/bbox/ymax'' = FloatList [4 / 5, 1 / 2]"
  "feature_of (sample_output h w p) ''image/encoded'' = BytesList [p]"
  by (simp_all add: sample_output_def feature_of_def)

text \<open>
  C2, amended. For a record that is written, with original dimensions \<open>H\<close> and \<open>W\<close> that are
  not negative and with \<open>3 * H\<close> and \<open>3 * W\<close> at most \<open>2 ^ 53\<close>, the dimensions written are
  the floors of \<open>H * 3\<close> and \<open>W * 3\<close>, that is \<open>3 * H\<close> and \<open>3 * W\<close>.
\<close>

theorem dimension_law:
  assumes "process_record env inp raw = (printed, Inr (ex', ol, rl))"
    and "ParseFromString env raw = Inr ex"
    and "int64_list_value (feature_of ex ''image/height'') = h # hs"
    and "int64_list_value (feature_of ex ''image/width'') = w # ws"
    and "0 \<le> sint h" and "0 \<le> sint w"
    and "3 * sint h \<le> 2 ^ 53" and "3 * sint w \<le> 2 ^ 53"
  shows "dims_of ex' = ([\<lfloor>of_int (sint h) * (3 :: rat)\<rfloor>], [\<lfloor>of_int (sint w) * (3 :: rat)\<rfloor>])
       \<and> dims_of ex' = ([3 * sint h], [3 * sint w])"
proof -
  from process_record_Inr [OF assms(1)]
  obtain example filename and label0 :: int64 and synset human height0 width0 resized_encoded
    where parse: "ParseFromString env raw = Inr example"
      and h0: "value0 (int64_list_value (feature_of example ''image/height'')) = Inr height0"
      and w0: "value0 (int64_list_value (feature_of example ''image/width'')) = Inr width0"
      and conv: "convert_to_example filename resized_encoded (sint label0) synset human
           (float_list_value (feature_of example ''image/object/bbox/xmin''))
           (float_list_value (feature_of example ''image/object/bbox/ymin''))
           (float_list_value (feature_of example ''image/object/bbox/xmax''))
           (float_list_value (feature_of example ''image/object/bbox/ymax''))
           (scaled_size (sint height0)) (scaled_size (sint width0)) = Inr ex'"
    by blast
  from parse assms(2) have [simp]: "example = ex" by simp
  from h0 assms(3) have [simp]: "height0 = h" by (simp add: value0_def)
  from w0 assms(4) have [simp]: "width0 = w" by (simp add: value0_def)
  have sh: "scaled_size (sint h) = 3 * sint h" using assms(5,7) by (rule scaled_size_exact)
  have sw: "scaled_size (sint w) = 3 * sint w" using assms(6,8) by (rule scaled_size_exact)
  note c = convert_to_example_Inr [OF conv]
  have hh: "feature_of ex' ''image/height'' = Int64List [word_of_int (3 * sint h)]"
    and ww: "feature_of ex' ''image/width'' = Int64List [word_of_int (3 * sint w)]"
    by (simp_all add: c(1) feature_of_def sh sw)
  have "in_int64 (3 * sint h)" "in_int64 (3 * sint w)"
    using c(2,3) by (simp_all add: sh sw)
  then have "sint (word_of_int (3 * sint h) :: int64) = 3 * sint h"
    and "sint (word_of_int (3 * sint w) :: int64) = 3 * sint w"
    by (simp_all only: sint_word_of_int_int64)
  then have "dims_of ex' = ([3 * sint h], [3 * sint w])"
    unfolding dims_of_def hh ww int64_list_value_def
    by (simp only: feature.case list.map)
  moreover have "\<lfloor>of_int (sint h) * (3 :: rat)\<rfloor> = 3 * sint h"
    "\<lfloor>of_int (sint w) * (3 :: rat)\<rfloor> = 3 * sint w"
    by (simp_all only: floor_times_three)
  ultimately show ?thesis by (simp only:)
qed

theorem dimension_law_witness:
  "process_record sample_env ''in/a'' (sample_record 100 100 ''abcd'') =
     ([RecordLine ''in/a'' ''train/n01/cat.JPEG'' 4 12],
      Inr (sample_output 300 300 ''abcdabcdabcd'', 4, 12))
   \<and> dims_of (sample_output 300 300 ''abcdabcdabcd'') = ([300], [300])"
  using dimension_law [OF sample_run_100 sample_parse, of 100 "[]" 100 "[]"] sample_run_100
  by (simp add: sample_fields int64_list_value_def)

text \<open>
  C2 as stated fails: the product is a double, and \<open>3 * 3002399751580431 = 2 ^ 53 + 301\<close> is
  not one. The height written is \<open>2 ^ 53 + 300\<close>, which the int32 size of the resize
  operation holds as 300, so the record is written.
\<close>

theorem dimension_law_counterexample:
  "written_dims sample_env ''in/a'' (sample_record 3002399751580431 100 ''abcd'')
     = Inr ([9007199254741292], [300])
   \<and> (9007199254741292 :: int) \<noteq> 3 * 3002399751580431
   \<and> int32_size 9007199254741292 = 300"
  by (simp add: written_dims_def sample_run_big dims_of_def sample_output_fields
      int64_list_value_def int32_samples)

text \<open>
  C3. For every record that is written, each of the four bounding-box coordinate lists of
  the output record is the list decoded from the input record.
\<close>

theorem bbox_unchanged:
  assumes "process_record env inp raw = (printed, Inr (ex', ol, rl))"
    and "ParseFromString env raw = Inr ex"
  shows "float_list_value (feature_of ex' ''image/object/bbox/xmin'')
           = float_list_value (feature_of ex ''image/object/bbox/xmin'')
       \<and> float_list_value (feature_of ex' ''image/object/bbox/ymin'')
           = float_list_value (feature_of ex ''image/object/bbox/ymin'')
       \<and> float_list_value (feature_of ex' ''image/object/bbox/xmax'')
           = float_list_value (feature_of ex ''image/object/bbox/xmax'')
       \<and> float_list_value (feature_of ex' ''image/object/bbox/ymax'')
           = float_list_value (feature_of ex ''image/object/bbox/ymax'')"
proof -
  from process_record_Inr [OF assms(1)]
  obtain example filename and label0 :: int64 and synset human resized_encoded nh nw
    where parse: "ParseFromString env raw = Inr example"
      and conv: "convert_to_example filename resized_encoded (sint label0) synset human
           (float_list_value (feature_of example ''image/object/bbox/xmin''))
           (float_list_value (feature_of example ''image/object/bbox/ymin''))
           (float_list_value (feature_of example ''image/object/bbox/xmax''))
           (float_list_value (feature_of example ''image/object/bbox/ymax''))
           nh nw = Inr ex'"
    by blast
  from parse assms(2) have "example = ex" by simp
  with convert_to_example_Inr(1) [OF conv] show ?thesis
    by (simp add: feature_of_def float_list_value_def)
qed

theorem bbox_unchanged_witness:
  "process_record sample_env ''in/a'' (sample_record 100 100 ''abcd'') =
     ([RecordLine ''in/a'' ''train/n01/cat.JPEG'' 4 12],
      Inr (sample_output 300 300 ''abcdabcdabcd'', 4, 12))
   \<and> float_list_value (feature_of (sample_output 300 300 ''abcdabcdabcd'')
        ''image/object/bbox/xmin'') = [1 / 4, 1 / 8]
   \<and> float_list_value (feature_of (sample_output 300 300 ''abcdabcdabcd'')
        ''image/object/bbox/ymax'') = [4 / 5, 1 / 2]"
  using bbox_unchanged [OF sample_run_100 sample_parse] sample_run_100
  by (simp add: sample_fields float_list_value_def)

text \<open>
  C4. In every record that is written, the per-object label list has one element for each
  bounding box (each element of the xmin list) and every element is the class label of the
  record.
\<close>

theorem bbox_labels:
  assumes "process_record env inp raw = (printed, Inr (ex', ol, rl))"
  shows "\<exists>label. int64_list_value (feature_of ex' ''image/class/label'') = [label]
       \<and> int64_list_value (feature_of ex' ''image/object/bbox/label'')
           = replicate (length (float_list_value (feature_of ex' ''image/object/bbox/xmin''))) label
       \<and> length (int64_list_value (feature_of ex' ''image/object/bbox/label''))
           = length (float_list_value (feature_of ex' ''image/object/bbox/xmin''))
       \<and> (\<forall>l \<in> set (int64_list_value (feature_of ex' ''image/object/bbox/label'')). l = label)"
proof -
  from process_record_Inr [OF assms(1)]
  obtain filename and label0 :: int64 and synset human resized_encoded nh nw
    xmin ymin xmax ymax
    where conv: "convert_to_example filename resized_encoded (sint label0) synset human
           xmin ymin xmax ymax nh nw = Inr ex'"
    by blast
  from convert_to_example_Inr(1) [OF conv] show ?thesis
    by (simp add: feature_of_def float_list_value_def int64_list_value_def)
qed

theorem bbox_labels_witness:
  "process_record sample_env ''in/a'' (sample_record 100 100 ''abcd'') =
     ([RecordLine ''in/a'' ''train/n01/cat.JPEG'' 4 12],
      Inr (sample_output 300 300 ''abcdabcdabcd'', 4, 12))
   \<and> int64_list_value (feature_of (sample_output 300 300 ''abcdabcdabcd'')
        ''image/object/bbox/label'') = [7, 7]
   \<and> length (float_list_value (feature_of (sample_output 300 300 ''abcdabcdabcd'')
        ''image/object/bbox/xmin'')) = 2"
  using bbox_labels [OF sample_run_100] sample_run_100
  by (simp add: sample_output_fields float_list_value_def int64_list_value_def)

text \<open>
  C6. Every record that is written carries the colorspace RGB, 3 channels and the format
  JPEG, whatever the input record holds in these fields.
\<close>

theorem fixed_constants:
  assumes "process_record env inp raw = (printed, Inr (ex', ol, rl))"
  shows "ex' ''image/colorspace'' = Some (BytesList [''RGB''])
       \<and> ex' ''image/channels'' = Some (Int64List [3])
       \<and> ex' ''image/format'' = Some (BytesList [''JPEG''])"
proof -
  from process_record_Inr [OF assms(1)]
  obtain filename and label0 :: int64 and synset human resized_encoded nh nw
    xmin ymin xmax ymax
    where conv: "convert_to_example filename resized_encoded (sint label0) synset human
           xmin ymin xmax ymax nh nw = Inr ex'"
    by blast
  from convert_to_example_Inr(1) [OF conv] show ?thesis
    by simp
qed

theorem fixed_constants_witness:
  "process_record sample_env ''in/a'' (sample_record 100 100 ''abcd'') =
     ([RecordLine ''in/a'' ''train/n01/cat.JPEG'' 4 12],
      Inr (sample_output 300 300 ''abcdabcdabcd'', 4, 12))
   \<and> sample_record 100 100 ''abcd'' ''image/colorspace'' = Some (BytesList [''CMYK''])
   \<and> sample_output 300 300 ''abcdabcdabcd'' ''image/colorspace'' = Some (BytesList [''RGB''])
   \<and> sample_output 300 300 ''abcdabcdabcd'' ''image/channels'' = Some (Int64List [3])
   \<and> sample_output 300 300 ''abcdabcdabcd'' ''image/format'' = Some (BytesList [''JPEG''])"
  using fixed_constants [OF sample_run_100] sample_run_100
  by (simp add: sample_record_def)

text \<open>
  C9, amended. A scale factor cannot be supplied: a call of \<open>process_tf_record_file\<close> that
  passes anything beyond the two file names raises TypeError and leaves the state as it was.
  Every record that is written was made with the constant 3.0: for original dimensions in
  the range where the product is exact, the resize operation was called with the two sizes
  that the transformer of the specification computes for its default factor, and the
  encoding of its result is the image written.
\<close>

theorem scale_factor_fixed:
  assumes "process_record env inp raw = (printed, Inr (ex', ol, rl))"
    and "ParseFromString env raw = Inr ex"
    and "int64_list_value (feature_of ex ''image/height'') = h # hs"
    and "int64_list_value (feature_of ex ''image/width'') = w # ws"
    and "bytes_list_value (feature_of ex ''image/encoded'') = payload # ps"
    and "0 \<le> sint h" and "0 \<le> sint w"
    and "3 * sint h \<le> 2 ^ 53" and "3 * sint w \<le> 2 ^ 53"
  shows "(\<exists>image resized_image resized_encoded.
            decode_jpeg env payload = Inr image
          \<and> resize_images env image (spec_scaled spec_default_scaleFactor (sint h))
               (spec_scaled spec_default_scaleFactor (sint w)) = Inr resized_image
          \<and> encode_jpeg env resized_image = Inr resized_encoded
          \<and> bytes_list_value (feature_of ex' ''image/encoded'') = [resized_encoded])
       \<and> (\<forall>kwargs out w0. kwargs \<noteq> [] \<longrightarrow>
            process_tf_record_file_call env inp out kwargs w0 = (w0, Inl TypeError))
       \<and> (\<forall>out w0. process_tf_record_file_call env inp out [] w0
            = process_tf_record_file env inp out w0)"
proof -
  from process_record_Inr [OF assms(1)]
  obtain example filename and label0 :: int64 and synset human height0 width0 original_encoded
    image resized_image resized_encoded xmin ymin xmax ymax
    where parse: "ParseFromString env raw = Inr example"
      and h0: "value0 (int64_list_value (feature_of example ''image/height'')) = Inr height0"
      and w0: "value0 (int64_list_value (feature_of example ''image/width'')) = Inr width0"
      and p0: "value0 (bytes_list_value (feature_of example ''image/encoded''))
                 = Inr original_encoded"
      and dec: "decode_jpeg env original_encoded = Inr image"
      and res: "resize_images env image (scaled_size (sint height0)) (scaled_size (sint width0))
                 = Inr resized_image"
      and enc: "encode_jpeg env resized_image = Inr resized_encoded"
      and conv: "convert_to_example filename resized_encoded (sint label0) synset human
           xmin ymin xmax ymax (scaled_size (sint height0)) (scaled_size (sint width0)) = Inr ex'"
    by blast
  from parse assms(2) have [simp]: "example = ex" by simp
  from h0 assms(3) have [simp]: "height0 = h" by (simp add: value0_def)
  from w0 assms(4) have [simp]: "width0 = w" by (simp add: value0_def)
  from p0 assms(5) have [simp]: "original_encoded = payload" by (simp add: value0_def)
  have sh: "scaled_size (sint h) = spec_scaled spec_default_scaleFactor (sint h)"
    using scaled_size_exact [OF assms(6,8)]
    by (simp only: spec_scaled_def spec_default_scaleFactor_def floor_times_three)
  have sw: "scaled_size (sint w) = spec_scaled spec_default_scaleFactor (sint w)"
    using scaled_size_exact [OF assms(7,9)]
    by (simp only: spec_scaled_def spec_default_scaleFactor_def floor_times_three)
  have "bytes_list_value (feature_of ex' ''image/encoded'') = [resized_encoded]"
    using convert_to_example_Inr(1) [OF conv]
    by (simp add: feature_of_def bytes_list_value_def)
  with dec res enc have "\<exists>image resized_image resized_encoded.
            decode_jpeg env payload = Inr image
          \<and> resize_images env image (spec_scaled spec_default_scaleFactor (sint h))
               (spec_scaled spec_default_scaleFactor (sint w)) = Inr resized_image
          \<and> encode_jpeg env resized_image = Inr resized_encoded
          \<and> bytes_list_value (feature_of ex' ''image/encoded'') = [resized_encoded]"
    by (simp add: sh sw)
  then show ?thesis
    by (simp add: process_tf_record_file_call_def)
qed

theorem scale_factor_fixed_witness:
  "process_record sample_env ''in/a'' (sample_record 100 100 ''abcd'') =
     ([RecordLine ''in/a'' ''train/n01/cat.JPEG'' 4 12],
      Inr (sample_output 300 300 ''abcdabcdabcd'', 4, 12))
   \<and> resize_images sample_env ''abcd'' (spec_scaled spec_default_scaleFactor 100)
        (spec_scaled spec_default_scaleFactor 100) = Inr ''abcdabcdabcd''
   \<and> bytes_list_value (feature_of (sample_output 300 300 ''abcdabcdabcd'') ''image/encoded'')
        = [''abcdabcdabcd'']
   \<and> process_tf_record_file_call sample_env ''in/a'' ''out/a'' [(''scaleFactor'', 3)] empty_world
        = (empty_world, Inl TypeError)"
  using scale_factor_fixed [OF sample_run_100 sample_parse, of 100 "[]" 100 "[]" "''abcd''" "[]"]
    sample_run_100
  by (simp add: sample_fields sample_output_fields int64_list_value_def bytes_list_value_def
      sample_env_def int32_samples spec_scaled_def spec_default_scaleFactor_def)

text \<open>
  C9 as stated fails: a call that supplies the scale factor 2 does not resize with that
  factor. It raises TypeError, and no output file is written.
\<close>

theorem scale_factor_counterexample:
  "process_tf_record_file_call sample_env ''in/a'' ''out/a'' [(''scaleFactor'', 2)] empty_world
     = (empty_world, Inl TypeError)
   \<and> files empty_world ''out/a'' = None"
  by (simp add: process_tf_record_file_call_def empty_world_def)

lemma sample_env_simps:
  "writer_open sample_env p = None"
  "SerializeToString sample_env ex = ex"
  "tf_record_iterator sample_env ''in/a'' = ([sample_record 100 100 ''abcd''], None)"
  "tf_record_iterator sample_env ''in/empty'' = ([], None)"
  by (simp_all add: sample_env_def)

text \<open>
  C7. The means are computed by dividing by the number of records without a test: a file
  that holds no record makes the division raise ZeroDivisionError, after the output file has
  been created.
\<close>

theorem empty_shard_zero_division:
  "process_tf_record_file sample_env ''in/empty'' ''out/empty'' empty_world
     = (writer_create ''out/empty'' empty_world, Inl ZeroDivisionError)"
  by (simp add: process_tf_record_file_def sample_env_simps py_truediv_def)

text \<open>The loop over the records writes one record for each record read, in order.\<close>

lemma records_loop_written:
  assumes "records_loop env inp out recs w st = (w', st', Inr ())"
    and "files w out = Some ws"
  shows "\<exists>outs. files w' out = Some (ws @ outs)
       \<and> list_all2 (\<lambda>raw r. \<exists>printed ex' ol rl.
            process_record env inp raw = (printed, Inr (ex', ol, rl))
            \<and> r = SerializeToString env ex') recs outs
       \<and> image_count st' = image_count st + length recs"
  using assms
proof (induction recs arbitrary: w st ws)
  case Nil
  then show ?case by simp
next
  case (Cons raw rest)
  obtain printed r where pr: "process_record env inp raw = (printed, r)"
    by (cases "process_record env inp raw")
  show ?case
  proof (cases r)
    case (Inl e)
    with Cons.prems(1) pr show ?thesis by (simp add: Let_def)
  next
    case (Inr res)
    obtain ex' ol rl where res: "res = (ex', ol, rl)" by (cases res)
    let ?w1 = "writer_write out (SerializeToString env ex') (w\<lparr>stdout := stdout w @ printed\<rparr>)"
    let ?st1 = "st\<lparr>image_count := image_count st + 1,
      original_len_total := original_len_total st + ol,
      resized_len_total := resized_len_total st + rl\<rparr>"
    from Cons.prems(1) pr Inr res
    have rec: "records_loop env inp out rest ?w1 ?st1 = (w', st', Inr ())"
      by (simp add: Let_def)
    have f1: "files ?w1 out = Some ((ws @ [SerializeToString env ex']))"
      using Cons.prems(2) by (simp add: writer_write_def)
    from Cons.IH [OF rec f1] obtain outs
      where o1: "files w' out = Some ((ws @ [SerializeToString env ex']) @ outs)"
        and o2: "list_all2 (\<lambda>raw r. \<exists>printed ex' ol rl.
            process_record env inp raw = (printed, Inr (ex', ol, rl))
            \<and> r = SerializeToString env ex') rest outs"
        and o3: "image_count st' = image_count ?st1 + length rest"
      by blast
    have "list_all2 (\<lambda>raw r. \<exists>printed ex' ol rl.
            process_record env inp raw = (printed, Inr (ex', ol, rl))
            \<and> r = SerializeToString env ex') (raw # rest) (SerializeToString env ex' # outs)"
      using o2 pr Inr res by auto
    with o1 o3 show ?thesis
      by (intro exI [of _ "SerializeToString env ex' # outs"]) simp
  qed
qed

text \<open>
  C5. When the processing of a file ends without an exception, the output file holds one
  record for each record of the input file, in the order of the input: the serialisation of
  what the loop body made of it.
\<close>

theorem record_count_preserved:
  assumes "process_tf_record_file env inp out w = (w', Inr ())"
  shows "\<exists>written. files w' out = Some written
       \<and> length written = length (fst (tf_record_iterator env inp))
       \<and> list_all2 (\<lambda>raw r. \<exists>printed ex' ol rl.
            process_record env inp raw = (printed, Inr (ex', ol, rl))
            \<and> r = SerializeToString env ex') (fst (tf_record_iterator env inp)) written"
proof -
  obtain recs raised where it: "tf_record_iterator env inp = (recs, raised)"
    by (cases "tf_record_iterator env inp")
  obtain w1 st r where loop: "records_loop env inp out recs (writer_create out w)
      \<lparr>original_len_total = 0, resized_len_total = 0, image_count = 0\<rparr> = (w1, st, r)"
    by (metis prod_cases3)
  from assms it loop have r: "r = Inr ()"
    by (auto simp: process_tf_record_file_def split: option.splits sum.splits)
  from assms it loop r have "files w' out = files w1 out"
    by (auto simp: process_tf_record_file_def print_def split: option.splits sum.splits)
  moreover have "files (writer_create out w) out = Some []"
    by (simp add: writer_create_def)
  from records_loop_written [OF loop [unfolded r] this]
  obtain outs where "files w1 out = Some outs"
    and l2: "list_all2 (\<lambda>raw r. \<exists>printed ex' ol rl.
            process_record env inp raw = (printed, Inr (ex', ol, rl))
            \<and> r = SerializeToString env ex') recs outs"
    by auto
  ultimately show ?thesis
    using it list_all2_lengthD [OF l2] by auto
qed

lemma sample_file_a:
  "process_tf_record_file sample_env ''in/a'' ''out/a'' empty_world =
     (\<lparr>stdout = [RecordLine ''in/a'' ''train/n01/cat.JPEG'' 4 12, SummaryLine ''in/a'' 1 4 12],
       files = [''out/a'' \<mapsto> [sample_output 300 300 ''abcdabcdabcd'']]\<rparr>, Inr ())"
  by (simp add: process_tf_record_file_def sample_env_simps sample_run_100 py_truediv_def
      writer_create_def writer_write_def print_def empty_world_def)

theorem record_count_preserved_witness:
  "process_tf_record_file sample_env ''in/a'' ''out/a'' empty_world =
     (\<lparr>stdout = [RecordLine ''in/a'' ''train/n01/cat.JPEG'' 4 12, SummaryLine ''in/a'' 1 4 12],
       files = [''out/a'' \<mapsto> [sample_output 300 300 ''abcdabcdabcd'']]\<rparr>, Inr ())
   \<and> length (fst (tf_record_iterator sample_env ''in/a'')) = 1"
  using record_count_preserved [OF sample_file_a] sample_file_a
  by (simp add: sample_env_simps)

lemma worker_loop_done: "num_files \<le> i \<Longrightarrow> worker_loop body size' num_files i s = Some (s, Inr ())"
  by (subst worker_loop.simps) simp

lemma worker_loop_step:
  "i < num_files \<Longrightarrow> worker_loop body size' num_files i s =
     (case body i s of
        (s', Inl e) \<Rightarrow> Some (s', Inl e)
      | (s', Inr u) \<Rightarrow> worker_loop body size' num_files (i + size') s')"
  by (subst worker_loop.simps) simp

text \<open>With a positive step the loop that notes the indices ends, on the indices of the stride.\<close>

lemma note_loop:
  assumes "0 < size'"
  shows "\<exists>xs. worker_loop note_index size' N i acc = Some (acc @ xs, Inr ())
       \<and> distinct xs
       \<and> set xs = {j. i \<le> j \<and> j < N \<and> (\<exists>k::nat. j = i + int k * size')}"
proof (induction "nat (N - i)" arbitrary: i acc rule: less_induct)
  case less
  show ?case
  proof (cases "i < N")
    case False
    then have "worker_loop note_index size' N i acc = Some (acc @ [], Inr ())"
      by (simp add: worker_loop_done)
    moreover from False have "{j. i \<le> j \<and> j < N \<and> (\<exists>k::nat. j = i + int k * size')} = {}"
      by auto
    ultimately show ?thesis by (intro exI [of _ "[]"]) simp
  next
    case True
    with assms have "nat (N - (i + size')) < nat (N - i)" by simp
    from less [OF this, of "acc @ [i]"] obtain xs
      where run: "worker_loop note_index size' N (i + size') (acc @ [i])
                    = Some ((acc @ [i]) @ xs, Inr ())"
        and d: "distinct xs"
        and s: "set xs = {j. i + size' \<le> j \<and> j < N \<and> (\<exists>k::nat. j = i + size' + int k * size')}"
      by blast
    from True run have "worker_loop note_index size' N i acc = Some (acc @ (i # xs), Inr ())"
      by (simp add: worker_loop_step note_index_def)
    moreover from s assms have "i \<notin> set xs" by auto
    with d have "distinct (i # xs)" by simp
    moreover have "set (i # xs) = {j. i \<le> j \<and> j < N \<and> (\<exists>k::nat. j = i + int k * size')}"
    proof (intro set_eqI iffI)
      fix j assume "j \<in> set (i # xs)"
      then consider "j = i" | "j \<in> set xs" by auto
      then show "j \<in> {j. i \<le> j \<and> j < N \<and> (\<exists>k::nat. j = i + int k * size')}"
      proof cases
        case 1
        with True show ?thesis by (auto intro: exI [of _ 0])
      next
        case 2
        with s obtain k :: nat where "i + size' \<le> j" "j < N" "j = i + size' + int k * size'"
          by auto
        with assms show ?thesis by (auto intro!: exI [of _ "Suc k"] simp: algebra_simps)
      qed
    next
      fix j assume "j \<in> {j. i \<le> j \<and> j < N \<and> (\<exists>k::nat. j = i + int k * size')}"
      then obtain k :: nat where j: "i \<le> j" "j < N" "j = i + int k * size'" by auto
      show "j \<in> set (i # xs)"
      proof (cases k)
        case 0
        with j show ?thesis by simp
      next
        case (Suc k')
        with j assms have "i + size' \<le> j" "j = i + size' + int k' * size'"
          by (simp_all add: algebra_simps)
        with j(2) s show ?thesis by auto
      qed
    qed
    ultimately show ?thesis by blast
  qed
qed

lemma assigned_indices_stride:
  assumes "0 < size'"
  shows "\<exists>xs. assigned_indices rank size' N = Some xs \<and> distinct xs
       \<and> set xs = {j. rank \<le> j \<and> j < N \<and> (\<exists>k::nat. j = rank + int k * size')}"
  using note_loop [OF assms, of N rank "[]"] by (auto simp: assigned_indices_def)

lemma stride_residue:
  assumes "0 < size'" and "0 \<le> r" and "r < size'"
  shows "{j. r \<le> j \<and> j < N \<and> (\<exists>k::nat. j = r + int k * size')}
           = {j. 0 \<le> j \<and> j < N \<and> j mod size' = r}"
proof (intro set_eqI iffI)
  fix j assume "j \<in> {j. r \<le> j \<and> j < N \<and> (\<exists>k::nat. j = r + int k * size')}"
  then obtain k :: nat where "r \<le> j" "j < N" "j = r + int k * size'" by auto
  with assms show "j \<in> {j. 0 \<le> j \<and> j < N \<and> j mod size' = r}" by simp
next
  fix j assume "j \<in> {j. 0 \<le> j \<and> j < N \<and> j mod size' = r}"
  then have j: "0 \<le> j" "j < N" "j mod size' = r" by auto
  have "j = r + (j div size') * size'" using j(3) by (metis add.commute div_mult_mod_eq)
  moreover from j(1) assms(1) have "0 \<le> j div size'" by (simp add: pos_imp_zdiv_nonneg_iff)
  ultimately have "j = r + int (nat (j div size')) * size'" by simp
  moreover from j(3) assms have "r \<le> j"
    by (metis j(1) zmod_le_nonneg_dividend)
  ultimately show "j \<in> {j. r \<le> j \<and> j < N \<and> (\<exists>k::nat. j = r + int k * size')}"
    using j(2) by blast
qed

text \<open>
  C10. A worker whose rank is not below the number of files matched by the pattern never
  enters the loop body: it ends normally, with exit status 0, and leaves the output files and
  the standard output as they were, whatever the size of the group.
\<close>

theorem idle_worker:
  assumes "int (length (glob env input_files)) \<le> rank"
  shows "worker env rank size' input_files output_dir w = Some (w, Inr ())
       \<and> exit_status (Inr ()) = 0"
  using assms by (simp add: worker_def worker_loop_done exit_status_def)

theorem idle_worker_witness:
  "int (length (glob sample_env ''in/*'')) \<le> 3
   \<and> worker sample_env 3 4 ''in/*'' ''out'' empty_world = Some (empty_world, Inr ())"
proof -
  have "int (length (glob sample_env ''in/*'')) \<le> 3" by (simp add: sample_env_def)
  from this idle_worker [OF this, of 4 "''out''" empty_world] show ?thesis by simp
qed

lemma shards_started_append:
  "shards_started (xs @ ys) = shards_started xs @ shards_started ys"
  by (induction xs rule: shards_started.induct) simp_all

lemma process_record_printed: "shards_started (fst (process_record env inp raw)) = []"
  unfolding process_record_def Let_def
  by (auto simp: bindE_def split: sum.splits)

lemma records_loop_started:
  "records_loop env inp out recs w st = (w', st', r)
     \<Longrightarrow> shards_started (stdout w') = shards_started (stdout w)"
proof (induction recs arbitrary: w st)
  case Nil
  then show ?case by simp
next
  case (Cons raw rest)
  obtain printed res where pr: "process_record env inp raw = (printed, res)"
    by (cases "process_record env inp raw")
  with process_record_printed [of env inp raw] have p: "shards_started printed = []" by simp
  show ?case
  proof (cases res)
    case (Inl e)
    with Cons.prems pr p show ?thesis
      by (auto simp: Let_def shards_started_append)
  next
    case (Inr x)
    obtain ex' ol rl where x: "x = (ex', ol, rl)" by (cases x)
    from Cons.prems pr Inr x
    have "shards_started (stdout w')
        = shards_started (stdout (writer_write out (SerializeToString env ex')
            (w\<lparr>stdout := stdout w @ printed\<rparr>)))"
      by (intro Cons.IH) (simp add: Let_def)
    with p show ?thesis by (simp add: writer_write_def shards_started_append)
  qed
qed

lemma process_tf_record_file_started:
  assumes "process_tf_record_file env inp out w = (w', r)"
  shows "shards_started (stdout w') = shards_started (stdout w)"
proof -
  obtain recs raised where it: "tf_record_iterator env inp = (recs, raised)"
    by (cases "tf_record_iterator env inp")
  obtain w1 st r1 where loop: "records_loop env inp out recs (writer_create out w)
      \<lparr>original_len_total = 0, resized_len_total = 0, image_count = 0\<rparr> = (w1, st, r1)"
    by (metis prod_cases3)
  from records_loop_started [OF loop]
  have "shards_started (stdout w1) = shards_started (stdout w)"
    by (simp add: writer_create_def)
  with assms it loop show ?thesis
    by (auto simp: process_tf_record_file_def print_def shards_started_append
        split: option.splits sum.splits)
qed

text \<open>A record with a corrupt image makes the loop body raise.\<close>

lemma corrupt_image_raises:
  assumes "corrupt_image env raw"
  shows "\<exists>printed e. process_record env inp raw = (printed, Inl e)"
proof -
  obtain printed res where pr: "process_record env inp raw = (printed, res)"
    by (cases "process_record env inp raw")
  show ?thesis
  proof (cases res)
    case (Inl e)
    with pr show ?thesis by blast
  next
    case (Inr x)
    obtain ex' ol rl where "x = (ex', ol, rl)" by (cases x)
    with pr Inr have "process_record env inp raw = (printed, Inr (ex', ol, rl))" by simp
    from process_record_Inr [OF this] obtain example original_encoded image
      where "ParseFromString env raw = Inr example"
        and "value0 (bytes_list_value (feature_of example ''image/encoded'')) = Inr original_encoded"
        and "decode_jpeg env original_encoded = Inr image"
      by blast
    with assms show ?thesis by (simp add: corrupt_image_def)
  qed
qed

lemma records_loop_truncated:
  assumes "j < length recs" and "process_record env inp (recs ! j) = (printed, Inl e)"
    and "files w out = Some ws"
  shows "\<exists>w' st' e' outs. records_loop env inp out recs w st = (w', st', Inl e')
       \<and> files w' out = Some (ws @ outs) \<and> length outs \<le> j"
  using assms
proof (induction recs arbitrary: j w st ws)
  case Nil
  then show ?case by simp
next
  case (Cons a rest)
  obtain pa ra where pa: "process_record env inp a = (pa, ra)"
    by (cases "process_record env inp a")
  show ?case
  proof (cases ra)
    case (Inl e0)
    with pa Cons.prems(3) show ?thesis by (simp add: Let_def)
  next
    case (Inr x)
    obtain ex' ol rl where x: "x = (ex', ol, rl)" by (cases x)
    from Inr pa Cons.prems(2) have "j \<noteq> 0" by (cases j) auto
    then obtain j' where j: "j = Suc j'" by (cases j) auto
    let ?w1 = "writer_write out (SerializeToString env ex') (w\<lparr>stdout := stdout w @ pa\<rparr>)"
    have f1: "files ?w1 out = Some (ws @ [SerializeToString env ex'])"
      using Cons.prems(3) by (simp add: writer_write_def)
    from Cons.prems(1,2) j have "j' < length rest"
      and "process_record env inp (rest ! j') = (printed, Inl e)" by simp_all
    from Cons.IH [OF this f1] pa Inr x j show ?thesis
      by (fastforce simp: Let_def)
  qed
qed

lemma corrupt_shard_truncated:
  assumes "j < length (fst (tf_record_iterator env inp))"
    and "corrupt_image env (fst (tf_record_iterator env inp) ! j)"
  shows "\<exists>w' e. process_tf_record_file env inp out w = (w', Inl e)
       \<and> (files w' out = files w out
          \<or> (\<exists>written. files w' out = Some written \<and> length written \<le> j))"
proof -
  obtain recs raised where it: "tf_record_iterator env inp = (recs, raised)"
    by (cases "tf_record_iterator env inp")
  from assms(2) it have "corrupt_image env (recs ! j)" by simp
  from corrupt_image_raises [OF this, of inp] obtain printed e
    where pr: "process_record env inp (recs ! j) = (printed, Inl e)" by blast
  from assms(1) it have j: "j < length recs" by simp
  have "files (writer_create out w) out = Some []" by (simp add: writer_create_def)
  from records_loop_truncated [OF j pr this]
  obtain w1 st1 e1 outs where "records_loop env inp out recs (writer_create out w)
      \<lparr>original_len_total = 0, resized_len_total = 0, image_count = 0\<rparr> = (w1, st1, Inl e1)"
    and "files w1 out = Some ([] @ outs)" and "length outs \<le> j"
    by blast
  with it show ?thesis
    by (auto simp: process_tf_record_file_def split: option.splits)
qed

lemma list_index_in_range:
  "0 \<le> i \<Longrightarrow> i < int (length xs) \<Longrightarrow> list_index xs i = Inr (xs ! nat i)"
  by (simp add: list_index_def)

text \<open>
  The worker against the indices of its stride: it announces a prefix of them, all of them
  when it ends normally, and every file before the last one announced was processed to
  its end.
\<close>

lemma worker_loop_trace:
  assumes "0 < size'" and "0 \<le> i"
  shows "\<exists>idxs w' r m.
      worker_loop note_index size' (int (length fs)) i acc = Some (acc @ idxs, Inr ())
    \<and> worker_loop (shard_body env rank output_dir fs) size' (int (length fs)) i w = Some (w', r)
    \<and> m \<le> length idxs
    \<and> shards_started (stdout w') = shards_started (stdout w) @ map (\<lambda>j. fs ! nat j) (take m idxs)
    \<and> (\<not> isl r \<longrightarrow> m = length idxs)
    \<and> (isl r \<longrightarrow> 0 < m)
    \<and> (\<forall>n. (if isl r then Suc n < m else n < m) \<longrightarrow>
          (\<exists>w1 w2. process_tf_record_file env (fs ! nat (idxs ! n))
                      (join output_dir (basename (fs ! nat (idxs ! n)))) w1 = (w2, Inr ())))"
  using assms(2)
proof (induction "nat (int (length fs) - i)" arbitrary: i acc w rule: less_induct)
  case less
  let ?N = "int (length fs)"
  let ?body = "shard_body env rank output_dir fs"
  show ?case
  proof (cases "i < ?N")
    case False
    then have "worker_loop note_index size' ?N i acc = Some (acc @ [], Inr ())"
      and "worker_loop ?body size' ?N i w = Some (w, Inr ())"
      by (simp_all add: worker_loop_done)
    then show ?thesis
      by (intro exI [of _ "[]"] exI [of _ w] exI [of _ "Inr ()"] exI [of _ 0]) simp
  next
    case True
    let ?f = "fs ! nat i"
    let ?out = "join output_dir (basename ?f)"
    let ?w1 = "print (Progress rank ?f ?out) w"
    obtain w2 r0 where p: "process_tf_record_file env ?f ?out ?w1 = (w2, r0)"
      by (cases "process_tf_record_file env ?f ?out ?w1")
    from True less.prems have body: "?body i w = (w2, r0)"
      by (simp add: shard_body_def list_index_in_range p)
    from process_tf_record_file_started [OF p]
    have st2: "shards_started (stdout w2) = shards_started (stdout w) @ [?f]"
      by (simp add: print_def shards_started_append)
    from True assms(1) have dec: "nat (?N - (i + size')) < nat (?N - i)" by simp
    from assms(1) less.prems have nonneg: "0 \<le> i + size'" by simp
    from less.hyps [OF dec nonneg, of "acc @ [i]" w2]
    obtain idxs w' r m
      where n1: "worker_loop note_index size' ?N (i + size') (acc @ [i])
                   = Some ((acc @ [i]) @ idxs, Inr ())"
        and b1: "worker_loop ?body size' ?N (i + size') w2 = Some (w', r)"
        and m1: "m \<le> length idxs"
        and s1: "shards_started (stdout w')
                   = shards_started (stdout w2) @ map (\<lambda>j. fs ! nat j) (take m idxs)"
        and e1: "\<not> isl r \<longrightarrow> m = length idxs"
        and g1: "isl r \<longrightarrow> 0 < m"
        and a1: "\<forall>n. (if isl r then Suc n < m else n < m) \<longrightarrow>
          (\<exists>w1 w2. process_tf_record_file env (fs ! nat (idxs ! n))
                      (join output_dir (basename (fs ! nat (idxs ! n)))) w1 = (w2, Inr ()))"
      by blast
    from True n1 have nt: "worker_loop note_index size' ?N i acc = Some (acc @ (i # idxs), Inr ())"
      by (simp add: worker_loop_step note_index_def)
    show ?thesis
    proof (cases r0)
      case (Inl e)
      with True body have "worker_loop ?body size' ?N i w = Some (w2, Inl e)"
        by (simp add: worker_loop_step)
      with nt st2 show ?thesis
        by (intro exI [of _ "i # idxs"] exI [of _ w2] exI [of _ "Inl e"] exI [of _ "Suc 0"]) simp
    next
      case (Inr u)
      with True body b1 have run: "worker_loop ?body size' ?N i w = Some (w', r)"
        by (simp add: worker_loop_step)
      have ok: "\<exists>w1 w2. process_tf_record_file env ?f ?out w1 = (w2, Inr ())"
        using p Inr by auto
      have all: "\<forall>n. (if isl r then Suc n < Suc m else n < Suc m) \<longrightarrow>
          (\<exists>w1 w2. process_tf_record_file env (fs ! nat ((i # idxs) ! n))
                      (join output_dir (basename (fs ! nat ((i # idxs) ! n)))) w1 = (w2, Inr ()))"
      proof (intro allI impI)
        fix n assume c: "if isl r then Suc n < Suc m else n < Suc m"
        show "\<exists>w1 w2. process_tf_record_file env (fs ! nat ((i # idxs) ! n))
                      (join output_dir (basename (fs ! nat ((i # idxs) ! n)))) w1 = (w2, Inr ())"
        proof (cases n)
          case 0
          with ok show ?thesis by simp
        next
          case (Suc n')
          with c have "if isl r then Suc n' < m else n' < m" by (simp split: if_splits)
          with a1 Suc show ?thesis by simp
        qed
      qed
      from nt run m1 s1 st2 e1 all show ?thesis
        by (intro exI [of _ "i # idxs"] exI [of _ w'] exI [of _ r] exI [of _ "Suc m"]) simp
    qed
  qed
qed

text \<open>
  A worker that ends normally has announced exactly the files at its assigned indices, in
  order, and has processed each of them to its end.
\<close>

lemma worker_announces_assigned:
  assumes "0 < size'" and "0 \<le> rank"
    and "worker env rank size' input_files output_dir w = Some (w', Inr ())"
  shows "\<exists>idxs. assigned_indices rank size' (int (length (sort (glob env input_files)))) = Some idxs
       \<and> shards_started (stdout w') = shards_started (stdout w)
            @ map (\<lambda>i. sort (glob env input_files) ! nat i) idxs"
proof -
  let ?fs = "sort (glob env input_files)"
  from worker_loop_trace [OF assms(1,2), where fs = ?fs and acc = "[]" and env = env
      and rank = rank and output_dir = output_dir and w = w]
  obtain idxs w1 r m
    where "worker_loop note_index size' (int (length ?fs)) rank [] = Some ([] @ idxs, Inr ())"
      and "worker_loop (shard_body env rank output_dir ?fs) size' (int (length ?fs)) rank w
             = Some (w1, r)"
      and "shards_started (stdout w1) = shards_started (stdout w)
             @ map (\<lambda>j. ?fs ! nat j) (take m idxs)"
      and "\<not> isl r \<longrightarrow> m = length idxs"
    by blast
  with assms(3) show ?thesis
    by (auto simp: worker_def assigned_indices_def)
qed

text \<open>
  C8. When a record of a file assigned to the worker has an image that the decoder rejects,
  the worker ends with an exception, exit status 1, and the files it has announced are a
  prefix of its assigned sequence that does not go beyond that file: no later file is
  processed. Processing that file itself always raises, and its output file is left as it
  was or holds at most the records that precede the corrupt one: no record is skipped.
\<close>

theorem corrupt_image_aborts_worker:
  assumes "0 < size'" and "0 \<le> rank"
    and "assigned_indices rank size' (int (length (sort (glob env input_files)))) = Some idxs"
    and "k < length idxs"
    and "inp = sort (glob env input_files) ! nat (idxs ! k)"
    and "j < length (fst (tf_record_iterator env inp))"
    and "corrupt_image env (fst (tf_record_iterator env inp) ! j)"
  shows "(\<exists>w' e m. worker env rank size' input_files output_dir w = Some (w', Inl e)
            \<and> exit_status (Inl e) = 1
            \<and> m \<le> Suc k
            \<and> shards_started (stdout w') = shards_started (stdout w)
                 @ map (\<lambda>i. sort (glob env input_files) ! nat i) (take m idxs))
       \<and> (\<forall>w0 out. \<exists>w1 e. process_tf_record_file env inp out w0 = (w1, Inl e)
            \<and> (files w1 out = files w0 out
               \<or> (\<exists>written. files w1 out = Some written \<and> length written \<le> j)))"
proof -
  let ?fs = "sort (glob env input_files)"
  from worker_loop_trace [OF assms(1,2), where fs = ?fs and acc = "[]" and env = env
      and rank = rank and output_dir = output_dir and w = w]
  obtain idxs0 w' r m
    where n: "worker_loop note_index size' (int (length ?fs)) rank [] = Some ([] @ idxs0, Inr ())"
      and run: "worker_loop (shard_body env rank output_dir ?fs) size' (int (length ?fs)) rank w
                  = Some (w', r)"
      and m: "m \<le> length idxs0"
      and st: "shards_started (stdout w') = shards_started (stdout w)
                 @ map (\<lambda>j. ?fs ! nat j) (take m idxs0)"
      and full: "\<not> isl r \<longrightarrow> m = length idxs0"
      and ok: "\<forall>n. (if isl r then Suc n < m else n < m) \<longrightarrow>
          (\<exists>w1 w2. process_tf_record_file env (?fs ! nat (idxs0 ! n))
                      (join output_dir (basename (?fs ! nat (idxs0 ! n)))) w1 = (w2, Inr ()))"
    by blast
  from n assms(3) have [simp]: "idxs0 = idxs" by (simp add: assigned_indices_def)
  have fails: "\<exists>w1 e. process_tf_record_file env inp out w0 = (w1, Inl e)
      \<and> (files w1 out = files w0 out
         \<or> (\<exists>written. files w1 out = Some written \<and> length written \<le> j))" for w0 out
    using corrupt_shard_truncated [OF assms(6,7)] by blast
  have not_ok: "\<not> (if isl r then Suc k < m else k < m)"
  proof
    assume "if isl r then Suc k < m else k < m"
    with ok assms(5) obtain w1 w2
      where "process_tf_record_file env inp (join output_dir (basename inp)) w1 = (w2, Inr ())"
      by auto
    with fails [of "join output_dir (basename inp)" w1] show False by auto
  qed
  from not_ok full assms(4) have "isl r" by (cases "isl r") auto
  then obtain e where r: "r = Inl e" by (cases r) auto
  from not_ok r have "m \<le> Suc k" by simp
  with run st r have "\<exists>w' e m. worker env rank size' input_files output_dir w = Some (w', Inl e)
            \<and> exit_status (Inl e) = 1
            \<and> m \<le> Suc k
            \<and> shards_started (stdout w') = shards_started (stdout w)
                 @ map (\<lambda>i. ?fs ! nat i) (take m idxs)"
    by (auto simp: worker_def exit_status_def)
  with fails show ?thesis by blast
qed

lemma sort_sample: "sort [''in/b'', ''in/a'', ''in/c''] = [''in/a'', ''in/b'', ''in/c'']"
proof -
  have "''in/a'' \<le> ''in/b''" "''in/b'' \<le> ''in/c''" "''in/a'' \<le> ''in/c''"
    "\<not> ''in/b'' \<le> ''in/a''" "\<not> ''in/c'' \<le> ''in/a''" "\<not> ''in/c'' \<le> ''in/b''"
    by (simp_all add: less_char_def)
  then show ?thesis by (simp del: Cons_le_Cons)
qed

lemma sample_shards: "sort (glob sample_env ''in/*'') = [''in/a'', ''in/b'', ''in/c'']"
  by (simp add: sample_env_def sort_sample del: sort_key_simps)

lemma sample_corrupt: "corrupt_image sample_env (sample_record 1 1 [])"
  by (simp add: corrupt_image_def sample_parse sample_fields bytes_list_value_def value0_def
      sample_env_def)

lemma sample_iter_b:
  "fst (tf_record_iterator sample_env ''in/b'')
     = [sample_record 10 20 ''ab'', sample_record 1 1 [], sample_record 2 2 ''a'']"
  by (simp add: sample_env_def)

lemma assigned_all: "assigned_indices 0 1 3 = Some [0, 1, 2]"
  by (simp add: assigned_indices_def worker_loop_step worker_loop_done note_index_def)

lemma sample_paths:
  "join ''out'' (basename ''in/a'') = ''out/a''"
  "join ''out'' (basename ''in/b'') = ''out/b''"
  by (simp_all add: join_def basename_def)

lemma sample_file_a_from:
  "process_tf_record_file sample_env ''in/a'' ''out/a'' w =
     (\<lparr>stdout = stdout w @ [RecordLine ''in/a'' ''train/n01/cat.JPEG'' 4 12,
                              SummaryLine ''in/a'' 1 4 12],
       files = (files w)(''out/a'' \<mapsto> [sample_output 300 300 ''abcdabcdabcd''])\<rparr>, Inr ())"
  by (simp add: process_tf_record_file_def sample_env_simps sample_run_100 py_truediv_def
      writer_create_def writer_write_def print_def)

lemma sample_run_b1:
  "process_record sample_env ''in/b'' (sample_record 10 20 ''ab'') =
     ([RecordLine ''in/b'' ''train/n01/cat.JPEG'' 2 6],
      Inr (sample_output 30 60 ''ababab'', 2, 6))"
proof -
  have s: "scaled_size 10 = 30" "scaled_size 20 = 60"
    using scaled_size_exact [of 10] scaled_size_exact [of 20] by simp_all
  have "in_int64 (scaled_size (sint (10 :: int64)))" "in_int64 (scaled_size (sint (20 :: int64)))"
    "0 < int32_size (scaled_size (sint (10 :: int64)))"
    "0 < int32_size (scaled_size (sint (20 :: int64)))"
    by (simp_all add: s in_int64_def int32_size_def)
  from sample_process_record [OF _ this, of "''ab''" "''in/b''"]
  show ?thesis by (simp add: s)
qed

lemma sample_run_b2:
  "process_record sample_env ''in/b'' (sample_record 1 1 []) = ([], Inl InvalidArgumentError)"
  by (simp add: process_record_def sample_parse sample_fields value0_def bytes_list_value_def
      int64_list_value_def sample_env_def)

lemma sample_file_b_from:
  "process_tf_record_file sample_env ''in/b'' ''out/b'' w =
     (\<lparr>stdout = stdout w @ [RecordLine ''in/b'' ''train/n01/cat.JPEG'' 2 6],
       files = (files w)(''out/b'' \<mapsto> [sample_output 30 60 ''ababab''])\<rparr>,
      Inl InvalidArgumentError)"
proof -
  have "tf_record_iterator sample_env ''in/b''
      = ([sample_record 10 20 ''ab'', sample_record 1 1 [], sample_record 2 2 ''a''], None)"
    by (simp add: sample_env_def)
  then show ?thesis
    by (simp add: process_tf_record_file_def sample_env_simps sample_run_b1 sample_run_b2
        writer_create_def writer_write_def)
qed

lemma sample_worker_run:
  "worker sample_env 0 1 ''in/*'' ''out'' empty_world =
     Some (\<lparr>stdout = [Progress 0 ''in/a'' ''out/a'',
                       RecordLine ''in/a'' ''train/n01/cat.JPEG'' 4 12,
                       SummaryLine ''in/a'' 1 4 12,
                       Progress 0 ''in/b'' ''out/b'',
                       RecordLine ''in/b'' ''train/n01/cat.JPEG'' 2 6],
            files = [''out/a'' \<mapsto> [sample_output 300 300 ''abcdabcdabcd''],
                     ''out/b'' \<mapsto> [sample_output 30 60 ''ababab'']]\<rparr>,
           Inl InvalidArgumentError)"
  by (simp add: worker_def sample_shards worker_loop_step shard_body_def list_index_def
      sample_paths sample_file_a_from sample_file_b_from print_def empty_world_def Let_def)

theorem corrupt_image_aborts_worker_witness:
  "assigned_indices 0 1 (int (length (sort (glob sample_env ''in/*'')))) = Some [0, 1, 2]
   \<and> sort (glob sample_env ''in/*'') ! nat ([0, 1, 2] ! 1) = ''in/b''
   \<and> corrupt_image sample_env (fst (tf_record_iterator sample_env ''in/b'') ! 1)
   \<and> worker sample_env 0 1 ''in/*'' ''out'' empty_world =
       Some (\<lparr>stdout = [Progress 0 ''in/a'' ''out/a'',
                         RecordLine ''in/a'' ''train/n01/cat.JPEG'' 4 12,
                         SummaryLine ''in/a'' 1 4 12,
                         Progress 0 ''in/b'' ''out/b'',
                         RecordLine ''in/b'' ''train/n01/cat.JPEG'' 2 6],
              files = [''out/a'' \<mapsto> [sample_output 300 300 ''abcdabcdabcd''],
                       ''out/b'' \<mapsto> [sample_output 30 60 ''ababab'']]\<rparr>,
             Inl InvalidArgumentError)
   \<and> exit_status (Inl InvalidArgumentError) = 1"
proof -
  have a: "assigned_indices 0 1 (int (length (sort (glob sample_env ''in/*'')))) = Some [0, 1, 2]"
    by (simp add: sample_shards assigned_all)
  have b: "''in/b'' = sort (glob sample_env ''in/*'') ! nat ([0, 1, 2] ! 1)"
    by (simp add: sample_shards)
  have c: "1 < length (fst (tf_record_iterator sample_env ''in/b''))"
    by (simp add: sample_iter_b)
  have d: "corrupt_image sample_env (fst (tf_record_iterator sample_env ''in/b'') ! 1)"
    by (simp add: sample_iter_b sample_corrupt)
  have "(0 :: int) < 1" "(0 :: int) \<le> 0" "1 < length [0, 1, 2 :: int]" by simp_all
  from corrupt_image_aborts_worker [OF this(1,2) a this(3) b c d,
      where output_dir = "''out''" and w = empty_world, THEN conjunct1]
  obtain w' e where "worker sample_env 0 1 ''in/*'' ''out'' empty_world = Some (w', Inl e)"
    and "exit_status (Inl e) = 1"
    by blast
  with sample_worker_run a b [symmetric] d show ?thesis by simp
qed

lemma sample_run_c:
  "process_record sample_env ''in/c'' (sample_record 5 6 ''abc'') =
     ([RecordLine ''in/c'' ''train/n01/cat.JPEG'' 3 9],
      Inr (sample_output 15 18 ''abcabcabc'', 3, 9))"
  "process_record sample_env ''in/c'' (sample_record 7 8 ''de'') =
     ([RecordLine ''in/c'' ''train/n01/cat.JPEG'' 2 6],
      Inr (sample_output 21 24 ''dedede'', 2, 6))"
proof -
  have s: "scaled_size 5 = 15" "scaled_size 6 = 18" "scaled_size 7 = 21" "scaled_size 8 = 24"
    using scaled_size_exact [of 5] scaled_size_exact [of 6]
      scaled_size_exact [of 7] scaled_size_exact [of 8] by simp_all
  have c1: "in_int64 (scaled_size (sint (5 :: int64)))" "in_int64 (scaled_size (sint (6 :: int64)))"
    "0 < int32_size (scaled_size (sint (5 :: int64)))"
    "0 < int32_size (scaled_size (sint (6 :: int64)))"
    by (simp_all add: s in_int64_def int32_size_def)
  have c2: "in_int64 (scaled_size (sint (7 :: int64)))" "in_int64 (scaled_size (sint (8 :: int64)))"
    "0 < int32_size (scaled_size (sint (7 :: int64)))"
    "0 < int32_size (scaled_size (sint (8 :: int64)))"
    by (simp_all add: s in_int64_def int32_size_def)
  from sample_process_record [OF _ c1, of "''abc''" "''in/c''"]
  show "process_record sample_env ''in/c'' (sample_record 5 6 ''abc'') =
     ([RecordLine ''in/c'' ''train/n01/cat.JPEG'' 3 9],
      Inr (sample_output 15 18 ''abcabcabc'', 3, 9))"
    by (simp add: s)
  from sample_process_record [OF _ c2, of "''de''" "''in/c''"]
  show "process_record sample_env ''in/c'' (sample_record 7 8 ''de'') =
     ([RecordLine ''in/c'' ''train/n01/cat.JPEG'' 2 6],
      Inr (sample_output 21 24 ''dedede'', 2, 6))"
    by (simp add: s)
qed

lemma sample_file_c_from:
  "process_tf_record_file sample_env ''in/c'' ''out/c'' w =
     (\<lparr>stdout = stdout w @ [RecordLine ''in/c'' ''train/n01/cat.JPEG'' 3 9,
                              RecordLine ''in/c'' ''train/n01/cat.JPEG'' 2 6,
                              SummaryLine ''in/c'' 2 (5 / 2) (15 / 2)],
       files = (files w)(''out/c'' \<mapsto> [sample_output 15 18 ''abcabcabc'',
                                          sample_output 21 24 ''dedede''])\<rparr>, Inr ())"
proof -
  have "tf_record_iterator sample_env ''in/c''
      = ([sample_record 5 6 ''abc'', sample_record 7 8 ''de''], None)"
    by (simp add: sample_env_def)
  then show ?thesis
    by (simp add: process_tf_record_file_def sample_env_simps sample_run_c py_truediv_def
        writer_create_def writer_write_def print_def)
qed

lemma sample_path_c: "join ''out'' (basename ''in/c'') = ''out/c''"
  by (simp add: join_def basename_def)

lemma sample_worker_0_of_2:
  "worker sample_env 0 2 ''in/*'' ''out'' empty_world =
     Some (\<lparr>stdout = [Progress 0 ''in/a'' ''out/a'',
                       RecordLine ''in/a'' ''train/n01/cat.JPEG'' 4 12,
                       SummaryLine ''in/a'' 1 4 12,
                       Progress 0 ''in/c'' ''out/c'',
                       RecordLine ''in/c'' ''train/n01/cat.JPEG'' 3 9,
                       RecordLine ''in/c'' ''train/n01/cat.JPEG'' 2 6,
                       SummaryLine ''in/c'' 2 (5 / 2) (15 / 2)],
            files = [''out/a'' \<mapsto> [sample_output 300 300 ''abcdabcdabcd''],
                     ''out/c'' \<mapsto> [sample_output 15 18 ''abcabcabc'',
                                       sample_output 21 24 ''dedede'']]\<rparr>,
           Inr ())"
  by (simp add: worker_def sample_shards worker_loop_step worker_loop_done shard_body_def
      list_index_def sample_paths sample_path_c sample_file_a_from sample_file_c_from
      print_def empty_world_def Let_def)

lemma sample_worker_1_of_2:
  "worker sample_env 1 2 ''in/*'' ''out'' empty_world =
     Some (\<lparr>stdout = [Progress 1 ''in/b'' ''out/b'',
                       RecordLine ''in/b'' ''train/n01/cat.JPEG'' 2 6],
            files = [''out/b'' \<mapsto> [sample_output 30 60 ''ababab'']]\<rparr>,
           Inl InvalidArgumentError)"
  by (simp add: worker_def sample_shards worker_loop_step worker_loop_done shard_body_def
      list_index_def sample_paths sample_file_b_from print_def empty_world_def Let_def)

lemma assigned_sample:
  "assigned_indices 0 2 3 = Some [0, 2]" "assigned_indices 1 2 3 = Some [1]"
  by (simp_all add: assigned_indices_def worker_loop_step worker_loop_done note_index_def)

text \<open>
  C1. For the sorted list of the \<open>N\<close> shards matched by the pattern and a group of
  \<open>size \<ge> 1\<close> workers, the worker of rank \<open>r\<close> ends, and the shards it has announced, in
  order, are those at the first indices of the sequence \<open>r\<close>, \<open>r + size\<close>, \<open>r + 2 * size\<close>,
  ... below \<open>N\<close>: all of them when it ends normally, at least one when it ends with an
  exception. The index sets of two different ranks are disjoint, and those of the ranks
  \<open>0\<close> to \<open>size - 1\<close> together are all of \<open>0\<close> to \<open>N - 1\<close>.
\<close>

theorem partition_disjoint_cover:
  assumes "1 \<le> size'"
    and "shards = sort (glob env input_files)"
  shows "(\<forall>r \<in> {0..<size'}. \<forall>w. \<exists>idxs w' res m.
            assigned_indices r size' (int (length shards)) = Some idxs
          \<and> distinct idxs
          \<and> set idxs = {i. 0 \<le> i \<and> i < int (length shards) \<and> (\<exists>k::nat. i = r + int k * size')}
          \<and> worker env r size' input_files output_dir w = Some (w', res)
          \<and> m \<le> length idxs
          \<and> shards_started (stdout w')
               = shards_started (stdout w) @ map (\<lambda>i. shards ! nat i) (take m idxs)
          \<and> (res = Inr () \<longrightarrow> m = length idxs)
          \<and> (isl res \<longrightarrow> 0 < m))
       \<and> (\<forall>r \<in> {0..<size'}. \<forall>r' \<in> {0..<size'}. r \<noteq> r' \<longrightarrow>
            set (the (assigned_indices r size' (int (length shards))))
              \<inter> set (the (assigned_indices r' size' (int (length shards)))) = {})
       \<and> (\<Union>r \<in> {0..<size'}. set (the (assigned_indices r size' (int (length shards)))))
            = {0..<int (length shards)}"
proof -
  let ?N = "int (length shards)"
  from assms(1) have pos: "0 < size'" by simp
  have stride: "\<exists>xs. assigned_indices r size' ?N = Some xs \<and> distinct xs
        \<and> set xs = {i. 0 \<le> i \<and> i < ?N \<and> (\<exists>k::nat. i = r + int k * size')}"
    and res: "set (the (assigned_indices r size' ?N)) = {j. 0 \<le> j \<and> j < ?N \<and> j mod size' = r}"
    if "r \<in> {0..<size'}" for r
  proof -
    from that have r: "0 \<le> r" "r < size'" by simp_all
    from assigned_indices_stride [OF pos, of r ?N] obtain xs
      where xs: "assigned_indices r size' ?N = Some xs" "distinct xs"
        "set xs = {j. r \<le> j \<and> j < ?N \<and> (\<exists>k::nat. j = r + int k * size')}"
      by blast
    from xs(1,3) show "set (the (assigned_indices r size' ?N))
        = {j. 0 \<le> j \<and> j < ?N \<and> j mod size' = r}"
      by (simp add: stride_residue [OF pos r])
    have "{j. r \<le> j \<and> j < ?N \<and> (\<exists>k::nat. j = r + int k * size')}
        = {i. 0 \<le> i \<and> i < ?N \<and> (\<exists>k::nat. i = r + int k * size')}"
      using r(1) pos by (auto intro: add_nonneg_nonneg)
    with xs show "\<exists>xs. assigned_indices r size' ?N = Some xs \<and> distinct xs
        \<and> set xs = {i. 0 \<le> i \<and> i < ?N \<and> (\<exists>k::nat. i = r + int k * size')}"
      by simp
  qed
  have run: "\<exists>idxs w' res m.
            assigned_indices r size' ?N = Some idxs
          \<and> distinct idxs
          \<and> set idxs = {i. 0 \<le> i \<and> i < ?N \<and> (\<exists>k::nat. i = r + int k * size')}
          \<and> worker env r size' input_files output_dir w = Some (w', res)
          \<and> m \<le> length idxs
          \<and> shards_started (stdout w')
               = shards_started (stdout w) @ map (\<lambda>i. shards ! nat i) (take m idxs)
          \<and> (res = Inr () \<longrightarrow> m = length idxs)
          \<and> (isl res \<longrightarrow> 0 < m)"
    if "r \<in> {0..<size'}" for r w
  proof -
    from that have r: "0 \<le> r" by simp
    from worker_loop_trace [OF pos r, where fs = shards and acc = "[]" and env = env
        and rank = r and output_dir = output_dir and w = w]
    obtain idxs w' res m
      where n: "worker_loop note_index size' ?N r [] = Some ([] @ idxs, Inr ())"
        and b: "worker_loop (shard_body env r output_dir shards) size' ?N r w = Some (w', res)"
        and m: "m \<le> length idxs"
        and st: "shards_started (stdout w')
                   = shards_started (stdout w) @ map (\<lambda>j. shards ! nat j) (take m idxs)"
        and full: "\<not> isl res \<longrightarrow> m = length idxs"
        and some: "isl res \<longrightarrow> 0 < m"
      by blast
    from n have a: "assigned_indices r size' ?N = Some idxs"
      by (simp add: assigned_indices_def)
    with stride [OF that] have "distinct idxs"
      and "set idxs = {i. 0 \<le> i \<and> i < ?N \<and> (\<exists>k::nat. i = r + int k * size')}"
      by auto
    moreover from b assms(2) have "worker env r size' input_files output_dir w = Some (w', res)"
      by (simp add: worker_def)
    moreover from full have "res = Inr () \<longrightarrow> m = length idxs" by auto
    ultimately show ?thesis using a m st some by blast
  qed
  have cover: "(\<Union>r \<in> {0..<size'}. set (the (assigned_indices r size' ?N))) = {0..<?N}"
  proof (intro set_eqI iffI)
    fix j assume "j \<in> (\<Union>r \<in> {0..<size'}. set (the (assigned_indices r size' ?N)))"
    then show "j \<in> {0..<?N}" by (auto simp: res)
  next
    fix j assume "j \<in> {0..<?N}"
    moreover from pos have "j mod size' \<in> {0..<size'}" by simp
    ultimately show "j \<in> (\<Union>r \<in> {0..<size'}. set (the (assigned_indices r size' ?N)))"
      by (auto simp: res intro!: bexI [of _ "j mod size'"])
  qed
  have disj: "\<forall>r \<in> {0..<size'}. \<forall>r' \<in> {0..<size'}. r \<noteq> r' \<longrightarrow>
      set (the (assigned_indices r size' ?N)) \<inter> set (the (assigned_indices r' size' ?N)) = {}"
    by (auto simp: res)
  show ?thesis
  proof (intro conjI ballI allI)
    fix r w assume "r \<in> {0..<size'}"
    then show "\<exists>idxs w' res m.
            assigned_indices r size' ?N = Some idxs
          \<and> distinct idxs
          \<and> set idxs = {i. 0 \<le> i \<and> i < ?N \<and> (\<exists>k::nat. i = r + int k * size')}
          \<and> worker env r size' input_files output_dir w = Some (w', res)
          \<and> m \<le> length idxs
          \<and> shards_started (stdout w')
               = shards_started (stdout w) @ map (\<lambda>i. shards ! nat i) (take m idxs)
          \<and> (res = Inr () \<longrightarrow> m = length idxs)
          \<and> (isl res \<longrightarrow> 0 < m)"
      by (rule run)
  next
    fix r r' assume "r \<in> {0..<size'}" "r' \<in> {0..<size'}"
    with disj show "r \<noteq> r' \<longrightarrow>
      set (the (assigned_indices r size' ?N)) \<inter> set (the (assigned_indices r' size' ?N)) = {}"
      by simp
  next
    show "(\<Union>r \<in> {0..<size'}. set (the (assigned_indices r size' ?N))) = {0..<?N}"
      by (rule cover)
  qed
qed

theorem partition_disjoint_cover_witness:
  "(1 :: int) \<le> 2
   \<and> sort (glob sample_env ''in/*'') = [''in/a'', ''in/b'', ''in/c'']
   \<and> assigned_indices 0 2 3 = Some [0, 2]
   \<and> assigned_indices 1 2 3 = Some [1]
   \<and> map_option (\<lambda>(w', res). (shards_started (stdout w'), res))
        (worker sample_env 0 2 ''in/*'' ''out'' empty_world)
        = Some ([''in/a'', ''in/c''], Inr ())
   \<and> map_option (\<lambda>(w', res). (shards_started (stdout w'), res))
        (worker sample_env 1 2 ''in/*'' ''out'' empty_world)
        = Some ([''in/b''], Inl InvalidArgumentError)
   \<and> set [0, 2 :: int] \<inter> set [1] = {}
   \<and> set [0, 2 :: int] \<union> set [1] = {0..<3}"
proof -
  have two: "{0..<2 :: int} = {0, 1}" by auto
  have "(1 :: int) \<le> 2" by simp
  from partition_disjoint_cover [OF this sample_shards [symmetric],
      where output_dir = "''out''", THEN conjunct2]
  show ?thesis
    by (simp add: two assigned_sample sample_shards sample_worker_0_of_2 sample_worker_1_of_2)
qed

end
